theory Spec2Isabelle
  imports Main
begin

section \<open>JavaScript values and string helpers\<close>

text \<open>
  The pages are plain browser scripts. Numbers are modelled as mathematical integers
  (page numbers, quantities and HTTP status codes are integers far below \<open>2^53\<close>),
  \<open>NaN\<close> as \<open>None\<close> of \<open>int option\<close>, \<open>null\<close> and \<open>undefined\<close> as
  \<open>None\<close> of an option type, and strings as byte lists (UTF-8), so that only ASCII
  white space and ASCII letters are recognised by \<open>trim\<close>, \<open>parseInt\<close> and
  \<open>toLowerCase\<close>.
\<close>

definition is_space :: "char \<Rightarrow> bool" where
  "is_space c = (c \<in> set [CHR '' '', CHR 0x09, CHR 0x0A, CHR 0x0B, CHR 0x0C, CHR 0x0D])"

text \<open>
  \<^verbatim>\<open>String.prototype.trim\<close>: white space removed at both ends. Of the characters the
  source removes, the ASCII ones are modelled (space, tab, line feed, vertical tab, form
  feed, carriage return); a string that begins or ends with a white space character
  outside ASCII (U+00A0, U+FEFF, U+2028 and the like) is outside the model.
\<close>

definition trim :: "string \<Rightarrow> string" where
  "trim s = rev (dropWhile is_space (rev (dropWhile is_space s)))"

definition digit_char :: "nat \<Rightarrow> char" where
  "digit_char n = ''0123456789ABCDEF'' ! n"

text \<open>Number to string conversion of a non-negative integer (decimal).\<close>

function show_nat :: "nat \<Rightarrow> string" where
  "show_nat n = (if n < 10 then [digit_char n] else show_nat (n div 10) @ [digit_char (n mod 10)])"
  by pat_completeness auto
termination
  by (relation "measure id") auto

declare show_nat.simps [simp del]

definition show_int :: "int \<Rightarrow> string" where
  "show_int i = (if i < 0 then CHR ''-'' # show_nat (nat (- i)) else show_nat (nat i))"

text \<open>A number that may be \<open>NaN\<close>, as a template literal or \<open>toString\<close> prints it.\<close>

definition show_number :: "int option \<Rightarrow> string" where
  "show_number v = (case v of None \<Rightarrow> ''NaN'' | Some i \<Rightarrow> show_int i)"

text \<open>A string that may be \<open>null\<close>, as a template literal prints it.\<close>

definition show_nullable :: "string option \<Rightarrow> string" where
  "show_nullable v = (case v of None \<Rightarrow> ''null'' | Some s \<Rightarrow> s)"

text \<open>Truthiness of a string that may be \<open>null\<close>: \<open>null\<close> and \<open>''\<close> are falsy.\<close>

definition truthy :: "string option \<Rightarrow> bool" where
  "truthy v = (case v of None \<Rightarrow> False | Some s \<Rightarrow> s \<noteq> [])"

text \<open>\<^verbatim>\<open>s || null\<close> on a string.\<close>

definition or_null :: "string \<Rightarrow> string option" where
  "or_null s = (if s = [] then None else Some s)"

text \<open>\<^verbatim>\<open>v || ''\<close> on a string that may be \<open>null\<close>.\<close>

definition or_empty :: "string option \<Rightarrow> string" where
  "or_empty v = (case v of None \<Rightarrow> [] | Some s \<Rightarrow> s)"

definition is_alnum :: "char \<Rightarrow> bool" where
  "is_alnum c = (let n = (of_char c :: nat) in
     (48 \<le> n \<and> n \<le> 57) \<or> (65 \<le> n \<and> n \<le> 90) \<or> (97 \<le> n \<and> n \<le> 122))"

definition toLowerCase :: "string \<Rightarrow> string" where
  "toLowerCase s = map (\<lambda>c. let n = (of_char c :: nat) in
     if 65 \<le> n \<and> n \<le> 90 then char_of (n + 32) else c) s"

subsection \<open>parseInt\<close>

text \<open>
  \<^verbatim>\<open>parseInt(string, radix)\<close> of ECMAScript: leading white space is skipped, a sign
  is read, a \<open>0x\<close> prefix selects radix 16 when the radix is omitted or 16, and the
  longest prefix of digits of the radix is the value; no digit gives \<open>NaN\<close>. The radix
  \<open>0\<close> stands for an omitted radix. The result is the exact integer the digits denote;
  the source returns the closest double, which is that integer as long as it is below
  \<open>2^53\<close> in size, so longer digit strings are outside the model, as is leading white
  space outside ASCII. The sign of \<open>-0\<close> is not kept.
\<close>

definition digit_value :: "char \<Rightarrow> nat option" where
  "digit_value c = (let n = (of_char c :: nat) in
     if 48 \<le> n \<and> n \<le> 57 then Some (n - 48)
     else if 97 \<le> n \<and> n \<le> 122 then Some (n - 87)
     else if 65 \<le> n \<and> n \<le> 90 then Some (n - 55)
     else None)"

fun radix_digits :: "nat \<Rightarrow> string \<Rightarrow> nat list" where
  "radix_digits R [] = []"
| "radix_digits R (c # cs) =
     (case digit_value c of
        None \<Rightarrow> []
      | Some d \<Rightarrow> if d < R then d # radix_digits R cs else [])"

definition digits_number :: "nat \<Rightarrow> nat list \<Rightarrow> nat" where
  "digits_number R ds = foldl (\<lambda>acc d. acc * R + d) 0 ds"

definition parseInt :: "string \<Rightarrow> nat \<Rightarrow> int option" where
  "parseInt s radix =
     (let S = dropWhile is_space s;
          negative = (take 1 S = ''-'');
          S1 = (if take 1 S = ''-'' \<or> take 1 S = ''+'' then drop 1 S else S)
      in if radix \<noteq> 0 \<and> (radix < 2 \<or> 36 < radix) then None
         else
           let stripPrefix = (radix = 0 \<or> radix = 16);
               hex = (stripPrefix \<and> (take 2 S1 = ''0x'' \<or> take 2 S1 = ''0X''));
               S2 = (if hex then drop 2 S1 else S1);
               R = (if hex then 16 else if radix = 0 then 10 else radix);
               Z = radix_digits R S2
           in if Z = [] then None
              else Some ((if negative then - 1 else 1) * int (digits_number R Z)))"

subsection \<open>URL encoding\<close>

definition percent_encode :: "char \<Rightarrow> string" where
  "percent_encode c =
     [CHR ''%'', digit_char ((of_char c :: nat) div 16), digit_char ((of_char c :: nat) mod 16)]"

text \<open>\<^verbatim>\<open>encodeURIComponent\<close>: letters, digits and \<^verbatim>\<open>- _ . ! ~ * ' ( )\<close> are kept.\<close>

definition encodeURIComponent :: "string \<Rightarrow> string" where
  "encodeURIComponent s =
     concat (map (\<lambda>c. if is_alnum c \<or> c \<in> set [CHR ''-'', CHR ''_'', CHR ''.'', CHR ''!'',
                          CHR ''~'', CHR ''*'', CHR 0x27, CHR ''('', CHR '')'']
                       then [c] else percent_encode c) s)"

text \<open>
  \<^verbatim>\<open>URLSearchParams.prototype.toString\<close>: the application/x-www-form-urlencoded
  serialiser. A space becomes \<open>+\<close>; letters, digits and \<^verbatim>\<open>* - . _\<close> are kept.
\<close>

definition form_encode :: "string \<Rightarrow> string" where
  "form_encode s =
     concat (map (\<lambda>c. if c = CHR '' '' then ''+''
                       else if is_alnum c \<or> c \<in> set [CHR ''*'', CHR ''-'', CHR ''.'', CHR ''_'']
                       then [c] else percent_encode c) s)"

fun serialize :: "(string \<times> string) list \<Rightarrow> string" where
  "serialize [] = []"
| "serialize [(k, v)] = form_encode k @ ''='' @ form_encode v"
| "serialize ((k, v) # rest) = form_encode k @ ''='' @ form_encode v @ ''&'' @ serialize rest"

section \<open>Cards and HTTP exchanges\<close>

text \<open>A card record as the storage service returns it (decoded JSON).\<close>

record card =
  card_id :: string
  card_name :: string
  rarity :: string
  point_worth :: int
  quantity :: int
  date_got_in_stock :: string
  image_url :: "string option"

text \<open>
  The \<open>detail\<close> member of an error body. A string, a falsy value that is not a string
  (\<open>null\<close>, \<open>false\<close>, \<open>0\<close>), or any other value, carried by its
  \<^verbatim>\<open>JSON.stringify\<close> rendering and its \<^verbatim>\<open>String(...)\<close> rendering.
\<close>

datatype detail = DetailString string | DetailFalsy | DetailOther string string

definition detail_truthy :: "detail option \<Rightarrow> bool" where
  "detail_truthy d = (case d of
      None \<Rightarrow> False
    | Some (DetailString s) \<Rightarrow> s \<noteq> []
    | Some DetailFalsy \<Rightarrow> False
    | Some (DetailOther j t) \<Rightarrow> True)"

text \<open>
  A response body: text that \<^verbatim>\<open>response.json()\<close> rejects (with the message of
  its SyntaxError), or a JSON object, given by its \<open>detail\<close> member (if any) and its
  reading at the type the endpoint answers with. Bodies are taken in decoded form: the
  members the scripts read have the types of the service's contract (numbers for
  quantities and page counts, strings for ids and names). An error body that parses to
  \<open>null\<close> is not modelled.
\<close>

datatype 'a body = NotJson string | Json "detail option" 'a

record 'a response =
  status :: nat
  payload :: "'a body"

text \<open>\<^verbatim>\<open>fetch\<close> rejects (network failure, with the error's message) or resolves.\<close>

datatype 'a fetch_result = Rejected string | Resolved "'a response"

text \<open>\<^verbatim>\<open>response.ok\<close>\<close>

definition response_ok :: "'a response \<Rightarrow> bool" where
  "response_ok r = (200 \<le> status r \<and> status r \<le> 299)"

datatype request_body =
    NoBody
  | QuantityChange int
  | SetQuantity int
  | CardUpdate "string option" "string option" "int option" "int option" "string option"

record request =
  http_method :: string
  url :: string
  sent_body :: request_body

section \<open>The user's collection page (collection.js)\<close>

text \<open>
  The page keeps the cards of the last fetch in the variable \<^verbatim>\<open>currentCards\<close> and
  shows them in \<^verbatim>\<open>#my-cards-area\<close>, with the counters \<^verbatim>\<open>#total-cards\<close> and
  \<^verbatim>\<open>#unique-cards\<close>. Of the functions declared twice in the script the later
  declaration is the one in force (\<^verbatim>\<open>closeModal\<close>, \<^verbatim>\<open>displayError\<close> and
  \<^verbatim>\<open>displaySuccess\<close> with \<^verbatim>\<open>alert\<close>). Two names of the script are also names
  of the card browser and are renamed here: its variable \<^verbatim>\<open>currentCollectionName\<close> is
  \<open>activeCollectionName\<close>, its \<^verbatim>\<open>displayError\<close> is \<open>displayError_alert\<close>. The field
  \<open>id\<close> of a card is \<open>card_id\<close>. \<^verbatim>\<open>editForm.reset()\<close> of \<^verbatim>\<open>closeModal\<close> acts on
  the form's controls, which are an input of \<^verbatim>\<open>updateCard\<close> (its \<open>formData\<close>) and
  not part of the page record.
\<close>

text \<open>
  A tile of \<^verbatim>\<open>#my-cards-area\<close>: the class tokens of the \<^verbatim>\<open>div\<close> and the markup
  assigned to its \<^verbatim>\<open>innerHTML\<close> (the card's fields are pasted into the markup as they
  are, so the tile holds the markup and not a reading of it).
\<close>

record tile =
  tile_classes :: "string list"
  tile_innerHTML :: string

datatype collection_node = Notice string | CardTile tile

record collection_page =
  currentCards :: "card list"
  activeCollectionName :: "string option"
  my_cards_area :: "collection_node list"
  total_cards :: string
  unique_cards :: string
  modal_show :: bool
  alerts :: "string list"

definition placeholder_image :: string where
  "placeholder_image = ''https://via.placeholder.com/150/CCCCCC/000000?Text=No+Image''"

text \<open>
  \<^verbatim>\<open>DOMTokenList.add(token)\<close> throws for the empty token (SyntaxError) and for a token
  that contains ASCII white space (InvalidCharacterError): tab, line feed, form feed,
  carriage return or space.
\<close>

definition ascii_white_space :: "char \<Rightarrow> bool" where
  "ascii_white_space c = (let n = (of_char c :: nat) in
     n = 9 \<or> n = 10 \<or> n = 12 \<or> n = 13 \<or> n = 32)"

definition valid_token :: "string \<Rightarrow> bool" where
  "valid_token t = (t \<noteq> [] \<and> list_all (\<lambda>c. \<not> ascii_white_space c) t)"

definition double_quote :: string where
  "double_quote = [CHR 0x22]"

definition line_break :: "nat \<Rightarrow> string" where
  "line_break indent = CHR 0x0A # replicate indent (CHR '' '')"

text \<open>The template literal assigned to \<^verbatim>\<open>cardElement.innerHTML\<close>, white space included.\<close>

definition card_markup :: "card \<Rightarrow> string" where
  "card_markup c =
     line_break 16 @ ''<img src='' @ double_quote
       @ (if truthy (image_url c) then or_empty (image_url c) else placeholder_image)
       @ double_quote @ '' alt='' @ double_quote @ card_name c @ double_quote @ ''>''
     @ line_break 16 @ ''<h4>'' @ card_name c @ ''</h4>''
     @ line_break 16 @ ''<p>Rarity: '' @ rarity c @ ''</p>''
     @ line_break 16 @ ''<p>Quantity: '' @ show_int (quantity c) @ ''</p>''
     @ line_break 16 @ ''<p>Points: '' @ show_int (point_worth c) @ ''</p>''
     @ line_break 12"

text \<open>The class token \<^verbatim>\<open>`rarity-${card.rarity.toLowerCase()}`\<close>.\<close>

definition rarity_class :: "string \<Rightarrow> string" where
  "rarity_class r = ''rarity-'' @ toLowerCase r"

definition card_tile :: "card \<Rightarrow> tile" where
  "card_tile c =
     \<lparr>tile_classes = [''card-item'', rarity_class (rarity c)],
      tile_innerHTML = card_markup c\<rparr>"

text \<open>
  The \<^verbatim>\<open>forEach\<close> of \<^verbatim>\<open>displayCollection\<close>: for each card in turn the element is
  created, given its two class tokens, filled and appended. \<^verbatim>\<open>classList.add\<close> of the
  rarity token throws when the token is not valid; the loop ends there, with the tiles
  appended so far. The result says whether the loop ran to its end.
\<close>

fun append_tiles :: "card list \<Rightarrow> collection_node list \<Rightarrow> bool \<times> collection_node list" where
  "append_tiles [] area = (True, area)"
| "append_tiles (c # cs) area =
     (if valid_token (rarity_class (rarity c))
      then append_tiles cs (area @ [CardTile (card_tile c)])
      else (False, area))"

text \<open>How a call ended: it returned, or it threw the named exception.\<close>

datatype completion = Returned | Threw string

text \<open>
  \<^verbatim>\<open>displayCollection(cards)\<close>; the argument \<open>None\<close> is a missing list
  (\<open>null\<close> or \<open>undefined\<close>). \<^verbatim>\<open>uniqueIds\<close> is a \<^verbatim>\<open>Set\<close> of the ids, its size
  the number of ids without repetition; \<^verbatim>\<open>reduce\<close> adds the quantities from 0. When
  the loop throws, the area has been cleared and holds the tiles appended so far, and the
  counters are not written.
\<close>

definition displayCollection ::
  "card list option \<Rightarrow> collection_page \<Rightarrow> completion \<times> collection_page" where
  "displayCollection cards pg =
     (case cards of
        None \<Rightarrow>
          (Returned, pg\<lparr>my_cards_area := [Notice ''Your collection is empty. Go draw some cards!''],
                        total_cards := ''0'', unique_cards := ''0''\<rparr>)
      | Some cs \<Rightarrow>
          if length cs = 0
          then (Returned, pg\<lparr>my_cards_area := [Notice ''Your collection is empty. Go draw some cards!''],
                             total_cards := ''0'', unique_cards := ''0''\<rparr>)
          else (case append_tiles cs [] of
                  (False, area) \<Rightarrow> (Threw ''InvalidCharacterError'', pg\<lparr>my_cards_area := area\<rparr>)
                | (True, area) \<Rightarrow>
                    (Returned,
                     pg\<lparr>my_cards_area := area,
                        total_cards := show_int (foldl (\<lambda>sum c. sum + quantity c) 0 cs),
                        unique_cards := show_nat (length (remdups (map card_id cs)))\<rparr>)))"

text \<open>\<^verbatim>\<open>Array.prototype.findIndex\<close>, with \<open>None\<close> for \<open>-1\<close>.\<close>

fun findIndex :: "('a \<Rightarrow> bool) \<Rightarrow> 'a list \<Rightarrow> nat option" where
  "findIndex P [] = None"
| "findIndex P (x # xs) = (if P x then Some 0 else map_option Suc (findIndex P xs))"

text \<open>\<^verbatim>\<open>FormData.get\<close>: the value of a named field, \<open>null\<close> when the form has none.\<close>

type_synonym form_data = "string \<Rightarrow> string option"

text \<open>
  \<^verbatim>\<open>new FormData(editForm)\<close> for the form of \<^verbatim>\<open>collection.html\<close>: none of its
  controls has a \<^verbatim>\<open>name\<close> attribute (they have ids only), so the form data has no
  entry and every \<^verbatim>\<open>get\<close> is \<open>null\<close>.
\<close>

definition editForm_data :: form_data where
  "editForm_data = (\<lambda>name. None)"

definition API_BASE_URL :: string where
  "API_BASE_URL = ''http://localhost:8080/gacha/api/v1/storage''"

text \<open>\<^verbatim>\<open>ENDPOINTS.UPDATE_CARD(id, collectionName)\<close>\<close>

definition UPDATE_CARD :: "string option \<Rightarrow> string option \<Rightarrow> string" where
  "UPDATE_CARD ident collectionName =
     API_BASE_URL @ ''/cards/'' @ show_nullable ident @
     (if truthy collectionName \<and> trim (or_empty collectionName) \<noteq> []
      then ''?collectionName='' @ encodeURIComponent (trim (or_empty collectionName))
      else [])"

definition closeModal :: "collection_page \<Rightarrow> collection_page" where
  "closeModal pg = pg\<lparr>modal_show := False\<rparr>"

definition displayError_alert :: "string \<Rightarrow> collection_page \<Rightarrow> collection_page" where
  "displayError_alert message pg = pg\<lparr>alerts := alerts pg @ [message]\<rparr>"

definition displaySuccess :: "string \<Rightarrow> collection_page \<Rightarrow> collection_page" where
  "displaySuccess message pg = pg\<lparr>alerts := alerts pg @ [message]\<rparr>"

text \<open>The request \<^verbatim>\<open>updateCard(formData)\<close> sends.\<close>

definition updateCard_request :: "form_data \<Rightarrow> request" where
  "updateCard_request formData =
     \<lparr>http_method = ''PUT'',
      url = UPDATE_CARD (formData ''card-id'') (formData ''edit-collection-name''),
      sent_body = CardUpdate (formData ''card-name'') (formData ''card-rarity'')
                    (parseInt (show_nullable (formData ''card-points'')) 0)
                    (parseInt (show_nullable (formData ''card-quantity'')) 0)
                    (formData ''card-date'')\<rparr>"

text \<open>
  \<^verbatim>\<open>updateCard(formData)\<close>, given the outcome of its one request. A rejected fetch, a
  status outside 2xx and a body that is not JSON all end in the \<^verbatim>\<open>catch\<close> block, and
  so does an exception of \<^verbatim>\<open>displayCollection\<close>: by then the held card has been
  replaced, the modal stays open and the failure is alerted. The result is the list of
  requests sent and the page afterwards.
\<close>

definition updateCard ::
  "form_data \<Rightarrow> card fetch_result \<Rightarrow> collection_page \<Rightarrow> request list \<times> collection_page" where
  "updateCard formData r pg =
     (let cardId = formData ''card-id'';
          failed = displayError_alert ''Failed to update card. Please try again.''
      in ([updateCard_request formData],
          (case r of
             Rejected msg \<Rightarrow> failed pg
           | Resolved resp \<Rightarrow>
               if \<not> response_ok resp then failed pg
               else (case payload resp of
                       NotJson msg \<Rightarrow> failed pg
                     | Json d updatedCard \<Rightarrow>
                         (case findIndex (\<lambda>c. Some (card_id c) = cardId) (currentCards pg) of
                            None \<Rightarrow> displaySuccess ''Card updated successfully!'' (closeModal pg)
                          | Some index \<Rightarrow>
                              let cards' = (currentCards pg)[index := updatedCard]
                              in (case displayCollection (Some cards') (pg\<lparr>currentCards := cards'\<rparr>) of
                                    (Returned, pg1) \<Rightarrow>
                                      displaySuccess ''Card updated successfully!'' (closeModal pg1)
                                  | (Threw err, pg1) \<Rightarrow> failed pg1))))))"

section \<open>The card browser page\<close>

subsection \<open>Document and variables\<close>

text \<open>
  One \<^verbatim>\<open>div.card-item\<close> of \<^verbatim>\<open>#cardDisplayArea\<close>: its \<^verbatim>\<open>data-card-id\<close>, what it
  shows, the text of its \<^verbatim>\<open>.quantity-value\<close>, the value of its \<^verbatim>\<open>.quantity-input\<close>
  and the collection name written into its \<^verbatim>\<open>onclick\<close> attributes. \<open>image_src\<close> is
  \<open>None\<close> for the "No Image" placeholder.
\<close>

record card_element =
  data_card_id :: string
  image_src :: "string option"
  shown_name :: string
  shown_rarity :: string
  shown_point_worth :: int
  shown_date :: string
  quantity_value :: string
  quantity_input :: string
  onclick_collection :: string

datatype area_node = Paragraph string | CardItem card_element

text \<open>
  What \<^verbatim>\<open>renderPaginationControls\<close> puts into a pagination container: the Previous
  button (the page its click handler sets, and whether it is disabled), the
  "Page c of t" text, and the Next button.
\<close>

record pager =
  prev_page :: int
  prev_disabled :: bool
  shown_current :: int
  shown_total :: int
  next_page :: int
  next_disabled :: bool

record pagination =
  total_pages :: int
  current_page :: int
  total_items :: int
  per_page :: "int option"

text \<open>
  The parsed body of a list response: not an object at all, or an object with its
  \<open>cards\<close> member (\<open>None\<close> when missing or not an array) and its \<open>pagination\<close>
  member (\<open>None\<close> when missing or not an object).
\<close>

datatype list_result = NotAnObject | ListObject "card list option" "pagination option"

record dom =
  loadingMessage_shown :: bool
  errorMessage_shown :: bool
  errorMessage_text :: string
  cardDisplayArea :: "area_node list"
  paginationControlsTop :: "pager option"
  paginationControlsBottom :: "pager option"
  clearSearchButton_shown :: bool
  collectionNameInput_value :: string
  sortBySelect_value :: string
  sortOrderSelect_value :: string
  perPageSelect_value :: string
  searchInput_value :: string

text \<open>The state variables of the script's closure.\<close>

record vars =
  currentPage :: int
  itemsPerPage :: "int option"
  currentSortBy :: string
  currentSortOrder :: string
  currentCollectionName :: "string option"
  currentSearchQuery :: "string option"
  totalPages :: int

text \<open>
  What the script takes from its surroundings: the \<open>collectionName\<close> parameter of the
  page's own URL (\<open>None\<close> when absent), the global function \<^verbatim>\<open>parseUrlParams\<close>, and
  the message of the TypeError with which \<^verbatim>\<open>response.text()\<close> rejects once the body
  has been consumed. \<^verbatim>\<open>parseUrlParams\<close> is called but declared nowhere in the script:
  it is \<open>None\<close> when no other script defines it (the call then throws a
  ReferenceError); when defined it cannot reach the closure's variables, so it is
  given by its effect on the document.
\<close>

record env =
  url_collectionName :: "string option"
  parseUrlParams :: "(dom \<Rightarrow> dom) option"
  body_used_message :: string

datatype js_error = ReferenceError string | TypeError string

text \<open>
  The page: variables, document, the URLs of the fetches whose response is awaited, every
  URL fetched so far, and the errors thrown out of \<^verbatim>\<open>fetchAndDisplayCards\<close> (its
  callers ignore the promise, so they surface as unhandled rejections).
\<close>

record browser =
  vars :: vars
  doc :: dom
  in_flight :: "string list"
  issued :: "string list"
  uncaught :: "js_error list"

definition baseUrl :: string where
  "baseUrl = ''http://localhost:8080/gacha/api/v1/storage''"

subsection \<open>Rendering\<close>

definition renderPaginationControls :: "pagination option \<Rightarrow> dom \<Rightarrow> dom" where
  "renderPaginationControls paginationData d =
     (let d0 = d\<lparr>paginationControlsTop := None, paginationControlsBottom := None\<rparr>
      in case paginationData of
           None \<Rightarrow> d0
         | Some p \<Rightarrow>
             if total_pages p \<le> 0 then d0
             else
               let controls = \<lparr>prev_page = current_page p - 1,
                               prev_disabled = (current_page p = 1),
                               shown_current = current_page p,
                               shown_total = total_pages p,
                               next_page = current_page p + 1,
                               next_disabled = (current_page p = total_pages p)\<rparr>
               in d0\<lparr>paginationControlsTop := Some controls,
                      paginationControlsBottom := Some controls\<rparr>)"

definition displayError :: "string \<Rightarrow> dom \<Rightarrow> dom" where
  "displayError message d =
     renderPaginationControls None
       (d\<lparr>errorMessage_text := message, errorMessage_shown := True,
          loadingMessage_shown := False, cardDisplayArea := []\<rparr>)"

definition updateActiveControls :: "vars \<Rightarrow> dom \<Rightarrow> dom" where
  "updateActiveControls v d =
     d\<lparr>sortBySelect_value := currentSortBy v,
       sortOrderSelect_value := currentSortOrder v,
       perPageSelect_value := show_number (itemsPerPage v),
       collectionNameInput_value := or_empty (currentCollectionName v),
       searchInput_value := or_empty (currentSearchQuery v)\<rparr>"

text \<open>The element built for one card; \<^verbatim>\<open>card.quantity || 0\<close> is shown as quantity.\<close>

definition card_element_of :: "vars \<Rightarrow> card \<Rightarrow> card_element" where
  "card_element_of v c =
     \<lparr>data_card_id = card_id c,
      image_src = (if truthy (image_url c) then image_url c else None),
      shown_name = card_name c,
      shown_rarity = rarity c,
      shown_point_worth = point_worth c,
      shown_date = date_got_in_stock c,
      quantity_value = show_int (if quantity c \<noteq> 0 then quantity c else 0),
      quantity_input = [],
      onclick_collection = or_empty (currentCollectionName v)\<rparr>"

subsection \<open>fetchAndDisplayCards\<close>

text \<open>The \<^verbatim>\<open>queryParams\<close> of the list request, in the order they are appended.\<close>

definition list_query :: "vars \<Rightarrow> (string \<times> string) list" where
  "list_query v =
     [(''page'', show_int (currentPage v)),
      (''per_page'', show_number (itemsPerPage v)),
      (''sort_by'', currentSortBy v),
      (''sort_order'', currentSortOrder v)]
     @ (if truthy (currentCollectionName v) \<and> trim (or_empty (currentCollectionName v)) \<noteq> []
        then [(''collectionName'', trim (or_empty (currentCollectionName v)))] else [])
     @ (if truthy (currentSearchQuery v) \<and> trim (or_empty (currentSearchQuery v)) \<noteq> []
        then [(''search_query'', trim (or_empty (currentSearchQuery v)))] else [])"

definition list_url :: "vars \<Rightarrow> string" where
  "list_url v = baseUrl @ ''/cards?'' @ serialize (list_query v)"

text \<open>
  The part of \<^verbatim>\<open>fetchAndDisplayCards\<close> that runs before \<^verbatim>\<open>await fetch(url)\<close>. The
  URL is a \<^verbatim>\<open>const\<close>; with a search query in force the statement
  \<^verbatim>\<open>url += `&search_query=...`\<close> that follows throws a TypeError, outside the
  \<^verbatim>\<open>try\<close> block, and \<^verbatim>\<open>fetch\<close> is not reached.
\<close>

definition fetchAndDisplayCards_start :: "env \<Rightarrow> browser \<Rightarrow> browser" where
  "fetchAndDisplayCards_start e st =
     (let d1 = (doc st)\<lparr>loadingMessage_shown := True, errorMessage_shown := False,
                         cardDisplayArea := []\<rparr>;
          v1 = (if \<not> truthy (currentCollectionName (vars st)) \<and> truthy (url_collectionName e)
                then (vars st)\<lparr>currentCollectionName := url_collectionName e\<rparr>
                else vars st)
      in if \<not> truthy (currentCollectionName v1) \<and> parseUrlParams e = None
         then st\<lparr>vars := v1, doc := d1,
                 uncaught := uncaught st @ [ReferenceError ''parseUrlParams is not defined'']\<rparr>
         else
           let d2 = (if \<not> truthy (currentCollectionName v1)
                     then (case parseUrlParams e of None \<Rightarrow> d1 | Some f \<Rightarrow> f d1) else d1);
               searching = (truthy (currentSearchQuery v1)
                            \<and> trim (or_empty (currentSearchQuery v1)) \<noteq> []);
               d3 = d2\<lparr>clearSearchButton_shown := searching\<rparr>
           in if searching
              then st\<lparr>vars := v1, doc := d3,
                      uncaught := uncaught st @ [TypeError ''Assignment to constant variable.'']\<rparr>
              else st\<lparr>vars := v1, doc := d3,
                      in_flight := in_flight st @ [list_url v1],
                      issued := issued st @ [list_url v1]\<rparr>)"

text \<open>The text appended to the message for a status outside 2xx, from the body's \<open>detail\<close>.\<close>

definition server_says :: "detail option \<Rightarrow> string" where
  "server_says d = (case d of
      Some (DetailString s) \<Rightarrow> if s \<noteq> [] then '', Server says: '' @ s else []
    | Some (DetailOther j t) \<Rightarrow> '', Server says: '' @ j
    | Some DetailFalsy \<Rightarrow> []
    | None \<Rightarrow> [])"

text \<open>The branch for a parsed body of a 2xx response.\<close>

definition show_result :: "list_result \<Rightarrow> browser \<Rightarrow> browser" where
  "show_result res st =
     (case res of
        NotAnObject \<Rightarrow>
          let d1 = displayError ''Invalid data structure received from server.'' (doc st);
              d2 = renderPaginationControls
                     (Some \<lparr>total_pages = 0, current_page = currentPage (vars st),
                            total_items = 0, per_page = itemsPerPage (vars st)\<rparr>) d1
          in st\<lparr>doc := updateActiveControls (vars st) d2\<rparr>
      | ListObject cards pg \<Rightarrow>
          let st1 =
                (case cards of
                   None \<Rightarrow>
                     st\<lparr>doc := (doc st)\<lparr>cardDisplayArea :=
                                [Paragraph ''No cards data found in the expected format (array).'']\<rparr>,
                        vars := (vars st)\<lparr>totalPages := 0\<rparr>\<rparr>
                 | Some cs \<Rightarrow>
                     if length cs = 0
                     then st\<lparr>doc := (doc st)\<lparr>cardDisplayArea :=
                                     [Paragraph ''No cards found matching your criteria.'']\<rparr>,
                             vars := (vars st)\<lparr>totalPages := 0\<rparr>\<rparr>
                     else st\<lparr>doc := (doc st)\<lparr>cardDisplayArea :=
                                     cardDisplayArea (doc st)
                                     @ map (\<lambda>c. CardItem (card_element_of (vars st) c)) cs\<rparr>,
                             vars := (vars st)\<lparr>totalPages :=
                                     (case pg of
                                        None \<Rightarrow> 0
                                      | Some p \<Rightarrow> if total_pages p \<noteq> 0 then total_pages p else 0)\<rparr>\<rparr>);
              d2 =
                (case pg of
                   Some p \<Rightarrow> renderPaginationControls (Some p) (doc st1)
                 | None \<Rightarrow>
                     renderPaginationControls
                       (Some \<lparr>total_pages = totalPages (vars st1),
                              current_page = currentPage (vars st1),
                              total_items = (case cards of None \<Rightarrow> 0 | Some cs \<Rightarrow> int (length cs)),
                              per_page = itemsPerPage (vars st1)\<rparr>) (doc st1))
          in st1\<lparr>doc := updateActiveControls (vars st1) d2\<rparr>)"

text \<open>
  The rest of \<^verbatim>\<open>fetchAndDisplayCards\<close>, run when its fetch has settled with \<open>r\<close>, on
  the page as it is at that moment. Nothing before the last \<^verbatim>\<open>await\<close> writes to the
  page, so the continuation is one step.
\<close>

definition fetchAndDisplayCards_finish :: "env \<Rightarrow> list_result fetch_result \<Rightarrow> browser \<Rightarrow> browser" where
  "fetchAndDisplayCards_finish e r st =
     (case r of
        Rejected msg \<Rightarrow> st\<lparr>doc := displayError (''Failed to load cards. '' @ msg) (doc st)\<rparr>
      | Resolved resp \<Rightarrow>
          if \<not> response_ok resp
          then (case payload resp of
                  NotJson msg \<Rightarrow>
                    st\<lparr>doc := displayError (''Failed to load cards. '' @ body_used_message e) (doc st)\<rparr>
                | Json d res \<Rightarrow>
                    st\<lparr>doc := displayError
                               (''Failed to load cards. '' @ ''Error fetching cards. Status: ''
                                @ show_nat (status resp) @ server_says d) (doc st)\<rparr>)
          else (case payload resp of
                  NotJson msg \<Rightarrow> st\<lparr>doc := displayError (''Failed to load cards. '' @ msg) (doc st)\<rparr>
                | Json d res \<Rightarrow>
                    show_result res (st\<lparr>doc := (doc st)\<lparr>loadingMessage_shown := False\<rparr>\<rparr>)))"

subsection \<open>Events of the page\<close>

text \<open>
  What can happen on the page: the user edits a text input, clicks a button, presses a
  key in the search input or picks an option of a select (the event carries the
  control's new value), clicks a pagination button, or the fetch at position \<open>k\<close> of
  those in flight settles with a result.
\<close>

datatype event =
    Type_collectionNameInput string
  | Type_searchInput string
  | Click_fetchCollectionButton
  | Click_searchButton
  | Keypress_searchInput string
  | Click_clearSearchButton
  | Change_sortBySelect string
  | Change_sortOrderSelect string
  | Change_perPageSelect string
  | Click_previous_top
  | Click_next_top
  | Click_previous_bottom
  | Click_next_bottom
  | Settle nat "list_result fetch_result"

definition searchButton_click :: "env \<Rightarrow> browser \<Rightarrow> browser" where
  "searchButton_click e st =
     fetchAndDisplayCards_start e
       (st\<lparr>vars := (vars st)\<lparr>currentSearchQuery := or_null (trim (searchInput_value (doc st))),
                              currentPage := 1\<rparr>\<rparr>)"

text \<open>
  The click handler \<^verbatim>\<open>createButton\<close> attaches: a button that is absent or disabled
  receives no click.
\<close>

definition page_button_click :: "env \<Rightarrow> pager option \<Rightarrow> bool \<Rightarrow> browser \<Rightarrow> browser" where
  "page_button_click e controls previous st =
     (case controls of
        None \<Rightarrow> st
      | Some p \<Rightarrow>
          if (if previous then prev_disabled p else next_disabled p) then st
          else fetchAndDisplayCards_start e
                 (st\<lparr>vars := (vars st)\<lparr>currentPage := (if previous then prev_page p else next_page p)\<rparr>\<rparr>))"

definition remove_nth :: "nat \<Rightarrow> 'a list \<Rightarrow> 'a list" where
  "remove_nth k xs = take k xs @ drop (Suc k) xs"

definition step :: "env \<Rightarrow> event \<Rightarrow> browser \<Rightarrow> browser" where
  "step e ev st =
     (case ev of
        Type_collectionNameInput s \<Rightarrow> st\<lparr>doc := (doc st)\<lparr>collectionNameInput_value := s\<rparr>\<rparr>
      | Type_searchInput s \<Rightarrow> st\<lparr>doc := (doc st)\<lparr>searchInput_value := s\<rparr>\<rparr>
      | Click_fetchCollectionButton \<Rightarrow>
          fetchAndDisplayCards_start e
            (st\<lparr>vars := (vars st)\<lparr>currentCollectionName :=
                                      or_null (trim (collectionNameInput_value (doc st))),
                                   currentPage := 1\<rparr>\<rparr>)
      | Click_searchButton \<Rightarrow> searchButton_click e st
      | Keypress_searchInput k \<Rightarrow> if k = ''Enter'' then searchButton_click e st else st
      | Click_clearSearchButton \<Rightarrow>
          fetchAndDisplayCards_start e
            (st\<lparr>vars := (vars st)\<lparr>currentSearchQuery := None, currentPage := 1\<rparr>,
                doc := (doc st)\<lparr>searchInput_value := [], clearSearchButton_shown := False\<rparr>\<rparr>)
      | Change_sortBySelect s \<Rightarrow>
          fetchAndDisplayCards_start e
            (st\<lparr>vars := (vars st)\<lparr>currentSortBy := s, currentPage := 1\<rparr>,
                doc := (doc st)\<lparr>sortBySelect_value := s\<rparr>\<rparr>)
      | Change_sortOrderSelect s \<Rightarrow>
          fetchAndDisplayCards_start e
            (st\<lparr>vars := (vars st)\<lparr>currentSortOrder := s, currentPage := 1\<rparr>,
                doc := (doc st)\<lparr>sortOrderSelect_value := s\<rparr>\<rparr>)
      | Change_perPageSelect s \<Rightarrow>
          fetchAndDisplayCards_start e
            (st\<lparr>vars := (vars st)\<lparr>itemsPerPage := parseInt s 10, currentPage := 1\<rparr>,
                doc := (doc st)\<lparr>perPageSelect_value := s\<rparr>\<rparr>)
      | Click_previous_top \<Rightarrow> page_button_click e (paginationControlsTop (doc st)) True st
      | Click_next_top \<Rightarrow> page_button_click e (paginationControlsTop (doc st)) False st
      | Click_previous_bottom \<Rightarrow> page_button_click e (paginationControlsBottom (doc st)) True st
      | Click_next_bottom \<Rightarrow> page_button_click e (paginationControlsBottom (doc st)) False st
      | Settle k r \<Rightarrow>
          if k < length (in_flight st)
          then fetchAndDisplayCards_finish e r (st\<lparr>in_flight := remove_nth k (in_flight st)\<rparr>)
          else st)"

fun run :: "env \<Rightarrow> event list \<Rightarrow> browser \<Rightarrow> browser" where
  "run e [] st = st"
| "run e (ev # evs) st = run e evs (step e ev st)"

text \<open>
  Page load (the \<^verbatim>\<open>DOMContentLoaded\<close> listener): the variables are read from the
  controls of the document as delivered, and the initial fetch is started.
\<close>

definition initial_vars :: "dom \<Rightarrow> vars" where
  "initial_vars d =
     \<lparr>currentPage = 1,
      itemsPerPage = parseInt (perPageSelect_value d) 10,
      currentSortBy = sortBySelect_value d,
      currentSortOrder = sortOrderSelect_value d,
      currentCollectionName = or_null (trim (collectionNameInput_value d)),
      currentSearchQuery = or_null (trim (searchInput_value d)),
      totalPages = 1\<rparr>"

definition page_load :: "env \<Rightarrow> dom \<Rightarrow> browser" where
  "page_load e d =
     fetchAndDisplayCards_start e
       \<lparr>vars = initial_vars d, doc = d, in_flight = [], issued = [], uncaught = []\<rparr>"

subsection \<open>Quantity updates\<close>

text \<open>Whether a node of the card area is the element of the card with a given id.\<close>

definition has_card_id :: "string \<Rightarrow> area_node \<Rightarrow> bool" where
  "has_card_id i n = (case n of Paragraph t \<Rightarrow> False | CardItem el \<Rightarrow> data_card_id el = i)"

text \<open>
  \<^verbatim>\<open>window.updateQuantity\<close> and \<^verbatim>\<open>window.updateQuantityByInput\<close> live outside the
  closure: they see the document only. They look the card up with
  \<^verbatim>\<open>document.querySelector(`[data-card-id="${documentId}"]`)\<close>: the id is pasted into
  the selector without escaping. Inside the double-quoted string of the selector a double
  quote ends the string, a backslash starts an escape, and a line feed, carriage return
  or form feed makes the string bad (NUL is replaced); every other character stands for
  itself. For an id free of these six characters the selector is the attribute selector
  for exactly that id, and \<^verbatim>\<open>querySelector\<close> finds the first card element that carries
  it (only card elements carry the attribute).
\<close>

definition selector_safe :: "string \<Rightarrow> bool" where
  "selector_safe i =
     list_all (\<lambda>c. c \<notin> set [CHR 0x22, CHR 0x5C, CHR 0x0A, CHR 0x0D, CHR 0x0C, CHR 0x00]) i"

definition selector_text :: "string \<Rightarrow> string" where
  "selector_text i = ''[data-card-id='' @ [CHR 0x22] @ i @ [CHR 0x22] @ '']''"

text \<open>
  What \<^verbatim>\<open>document.querySelector\<close> gave: \<open>null\<close>; an element, described by the
  position in the card area of the card whose \<^verbatim>\<open>.quantity-value\<close> is the first inside
  the element and of the card whose \<^verbatim>\<open>.quantity-input\<close> is (\<open>None\<close> when the element
  holds none); or a SyntaxError with its message.
\<close>

datatype selected = Null | Element "nat option" "nat option" | Selector_throws string

text \<open>
  What the scripts take from the browser: the result of \<^verbatim>\<open>querySelector\<close> for a
  selector text built from an id that is not selector-safe (what such a text selects
  depends on the selector parser and on the whole document), and the message of the
  TypeError raised by an assignment to a property of \<open>null\<close>, by property name.
\<close>

record engine =
  css_select :: "string \<Rightarrow> area_node list \<Rightarrow> selected"
  set_on_null :: "string \<Rightarrow> string"

definition querySelector_card :: "engine \<Rightarrow> string \<Rightarrow> area_node list \<Rightarrow> selected" where
  "querySelector_card g i ns =
     (if selector_safe i
      then (case findIndex (has_card_id i) ns of
              None \<Rightarrow> Null
            | Some k \<Rightarrow> Element (Some k) (Some k))
      else css_select g (selector_text i) ns)"

text \<open>
  \<^verbatim>\<open>cardElement.querySelector(cls).prop = v\<close>: the change \<open>f\<close> is made to the card
  element at the position found for the class; \<open>None\<close> when the inner
  \<^verbatim>\<open>querySelector\<close> gave \<open>null\<close> (the assignment then throws a TypeError).
\<close>

definition write_slot ::
  "nat option \<Rightarrow> (card_element \<Rightarrow> card_element) \<Rightarrow> area_node list \<Rightarrow> area_node list option" where
  "write_slot slot f ns =
     (case slot of
        None \<Rightarrow> None
      | Some j \<Rightarrow>
          if j < length ns
          then (case ns ! j of
                  Paragraph t \<Rightarrow> None
                | CardItem el \<Rightarrow> Some (ns[j := CardItem (f el)]))
          else None)"

text \<open>
  The two classes written to, with the property assigned and the change to the element.
\<close>

datatype slot = Quantity_value | Quantity_input

type_synonym assignment = "slot \<times> string \<times> (card_element \<Rightarrow> card_element)"

text \<open>
  The assignments of one \<^verbatim>\<open>if (cardElement) { ... }\<close> block, in order: the first one
  that throws ends the block, with the earlier ones done. The result is the message
  thrown, if any, and the card area.
\<close>

fun assign_all ::
  "engine \<Rightarrow> nat option \<Rightarrow> nat option \<Rightarrow> assignment list \<Rightarrow> area_node list
     \<Rightarrow> string option \<times> area_node list" where
  "assign_all g vs inp [] ns = (None, ns)"
| "assign_all g vs inp ((s, prop, f) # rest) ns =
     (case write_slot (case s of Quantity_value \<Rightarrow> vs | Quantity_input \<Rightarrow> inp) f ns of
        None \<Rightarrow> (Some (set_on_null g prop), ns)
      | Some ns' \<Rightarrow> assign_all g vs inp rest ns')"

text \<open>
  \<^verbatim>\<open>const cardElement = document.querySelector(...); if (cardElement) { ... }\<close>: the
  message of the exception thrown on the way, if any, and the document.
\<close>

definition touch_card :: "engine \<Rightarrow> string \<Rightarrow> assignment list \<Rightarrow> dom \<Rightarrow> string option \<times> dom" where
  "touch_card g documentId assignments d =
     (case querySelector_card g documentId (cardDisplayArea d) of
        Null \<Rightarrow> (None, d)
      | Selector_throws msg \<Rightarrow> (Some msg, d)
      | Element vs inp \<Rightarrow>
          (case assign_all g vs inp assignments (cardDisplayArea d) of
             (thrown, ns) \<Rightarrow> (thrown, d\<lparr>cardDisplayArea := ns\<rparr>)))"

text \<open>
  What a call has done: the requests sent, the \<^verbatim>\<open>alert\<close>s raised, the document, and
  the message of an exception that left the function uncaught (\<open>None\<close> when it returned).
\<close>

record outcome =
  sent :: "request list"
  alerted :: "string list"
  page :: dom
  uncaught_error :: "string option"

definition collection_suffix :: "string option \<Rightarrow> string" where
  "collection_suffix collectionName =
     (if truthy collectionName \<and> trim (or_empty collectionName) \<noteq> []
      then ''?collectionName='' @ encodeURIComponent (trim (or_empty collectionName))
      else [])"

text \<open>\<^verbatim>\<open>errorData.detail || `Error: ${response.status}`\<close> as the message of \<^verbatim>\<open>new Error(...)\<close>.\<close>

definition detail_or_status :: "detail option \<Rightarrow> nat \<Rightarrow> string" where
  "detail_or_status d st = (case d of
      Some (DetailString s) \<Rightarrow> if s \<noteq> [] then s else ''Error: '' @ show_nat st
    | Some (DetailOther j t) \<Rightarrow> t
    | Some DetailFalsy \<Rightarrow> ''Error: '' @ show_nat st
    | None \<Rightarrow> ''Error: '' @ show_nat st)"

text \<open>
  The \<^verbatim>\<open>try\<close> block shared by both functions, from the response on: \<open>failure\<close>
  prefixes the alert of the \<^verbatim>\<open>catch\<close> block, \<open>shown\<close> gives the assignments a
  successful answer makes to the card's element. Every exception of the block, those of
  the lookup and of the assignments included, is caught and alerted.
\<close>

definition settle_update ::
  "engine \<Rightarrow> string \<Rightarrow> string \<Rightarrow> (card \<Rightarrow> assignment list) \<Rightarrow> card fetch_result \<Rightarrow> dom
     \<Rightarrow> string list \<times> dom" where
  "settle_update g failure documentId shown r d =
     (case r of
        Rejected msg \<Rightarrow> ([failure @ msg], d)
      | Resolved resp \<Rightarrow>
          if \<not> response_ok resp
          then (case payload resp of
                  NotJson msg \<Rightarrow> ([failure @ msg], d)
                | Json dt errorData \<Rightarrow> ([failure @ detail_or_status dt (status resp)], d))
          else (case payload resp of
                  NotJson msg \<Rightarrow> ([failure @ msg], d)
                | Json dt updatedCard \<Rightarrow>
                    (case touch_card g documentId (shown updatedCard) d of
                       (None, d') \<Rightarrow> ([], d')
                     | (Some msg, d') \<Rightarrow> ([failure @ msg], d'))))"

definition updateQuantity ::
  "engine \<Rightarrow> string \<Rightarrow> int \<Rightarrow> string option \<Rightarrow> card fetch_result \<Rightarrow> dom \<Rightarrow> outcome" where
  "updateQuantity g documentId change collectionName r d =
     (let req = \<lparr>http_method = ''PATCH'',
                 url = ''http://localhost:8080/gacha/api/v1/storage/cards/'' @ documentId
                       @ ''/quantity'' @ collection_suffix collectionName,
                 sent_body = QuantityChange change\<rparr>;
          res = settle_update g ''Failed to update quantity: '' documentId
                  (\<lambda>updatedCard.
                     [(Quantity_value, ''textContent'',
                       \<lambda>el. el\<lparr>quantity_value := show_int (quantity updatedCard)\<rparr>)]) r d
      in \<lparr>sent = [req], alerted = fst res, page = snd res, uncaught_error = None\<rparr>)"

text \<open>
  \<^verbatim>\<open>updateQuantityByInput\<close>, given the answers to its PATCH (\<open>r1\<close>) and its PUT
  (\<open>r2\<close>). The function first passes the parsed input to \<^verbatim>\<open>updateQuantity\<close> as a
  change, clears the card's input, and only then checks that the input is not negative
  and sends the PUT that sets the quantity. The lookup that clears the input stands
  outside any \<^verbatim>\<open>try\<close>: an exception there ends the function.
\<close>

definition updateQuantityByInput ::
  "engine \<Rightarrow> string \<Rightarrow> string \<Rightarrow> string option \<Rightarrow> card fetch_result \<Rightarrow> card fetch_result \<Rightarrow> dom
     \<Rightarrow> outcome" where
  "updateQuantityByInput g documentId inputValue collectionName r1 r2 d =
     (case parseInt inputValue 0 of
        None \<Rightarrow>
          \<lparr>sent = [], alerted = [''Please enter a valid number for quantity change.''], page = d,
           uncaught_error = None\<rparr>
      | Some amount \<Rightarrow>
          let o1 = updateQuantity g documentId amount collectionName r1 d
          in (case touch_card g documentId
                     [(Quantity_input, ''value'', \<lambda>el. el\<lparr>quantity_input := []\<rparr>)] (page o1) of
                (Some msg, d1) \<Rightarrow>
                  \<lparr>sent = sent o1, alerted = alerted o1, page = d1, uncaught_error = Some msg\<rparr>
              | (None, d1) \<Rightarrow>
                  (case parseInt inputValue 0 of
                     None \<Rightarrow>
                       \<lparr>sent = sent o1,
                        alerted = alerted o1
                                  @ [''Please enter a valid non-negative number for quantity.''],
                        page = d1, uncaught_error = None\<rparr>
                   | Some newQuantity \<Rightarrow>
                       if newQuantity < 0
                       then \<lparr>sent = sent o1,
                             alerted = alerted o1
                                       @ [''Please enter a valid non-negative number for quantity.''],
                             page = d1, uncaught_error = None\<rparr>
                       else
                         let req = \<lparr>http_method = ''PUT'',
                                    url = ''http://localhost:8080/gacha/api/v1/storage/cards/''
                                          @ documentId @ collection_suffix collectionName,
                                    sent_body = SetQuantity newQuantity\<rparr>;
                             res = settle_update g ''Failed to set quantity: '' documentId
                                     (\<lambda>updatedCard.
                                        [(Quantity_value, ''textContent'',
                                          \<lambda>el. el\<lparr>quantity_value := show_int (quantity updatedCard)\<rparr>),
                                         (Quantity_input, ''value'',
                                          \<lambda>el. el\<lparr>quantity_input := []\<rparr>)]) r2 d1
                         in \<lparr>sent = sent o1 @ [req], alerted = alerted o1 @ fst res,
                             page = snd res, uncaught_error = None\<rparr>)))"

subsection \<open>Notions used in the statements\<close>

text \<open>
  A fetch that failed: \<^verbatim>\<open>fetch\<close> rejected, the status is outside 2xx, or the body of
  a 2xx answer is not JSON. Each of them ends in the \<^verbatim>\<open>catch\<close> block of
  \<^verbatim>\<open>fetchAndDisplayCards\<close>.
\<close>

definition fetch_failed :: "list_result fetch_result \<Rightarrow> bool" where
  "fetch_failed r = (case r of
      Rejected msg \<Rightarrow> True
    | Resolved resp \<Rightarrow>
        (if response_ok resp then (case payload resp of NotJson msg \<Rightarrow> True | Json d res \<Rightarrow> False)
         else True))"

text \<open>The ids of the card elements of the card area, in document order.\<close>

fun displayed_ids :: "area_node list \<Rightarrow> string list" where
  "displayed_ids [] = []"
| "displayed_ids (Paragraph t # ns) = displayed_ids ns"
| "displayed_ids (CardItem el # ns) = data_card_id el # displayed_ids ns"

text \<open>
  The events whose handlers set one of collection name, search query, sort field, sort
  order and page size, and the events that are clicks on a pagination button.
\<close>

fun changes_parameter :: "event \<Rightarrow> bool" where
  "changes_parameter Click_fetchCollectionButton = True"
| "changes_parameter Click_searchButton = True"
| "changes_parameter (Keypress_searchInput k) = (k = ''Enter'')"
| "changes_parameter Click_clearSearchButton = True"
| "changes_parameter (Change_sortBySelect s) = True"
| "changes_parameter (Change_sortOrderSelect s) = True"
| "changes_parameter (Change_perPageSelect s) = True"
| "changes_parameter ev = False"

fun page_navigation :: "event \<Rightarrow> bool" where
  "page_navigation Click_previous_top = True"
| "page_navigation Click_next_top = True"
| "page_navigation Click_previous_bottom = True"
| "page_navigation Click_next_bottom = True"
| "page_navigation ev = False"

text \<open>
  Once \<^verbatim>\<open>fetchAndDisplayCards\<close> has started, the collection name is set unless the
  page's URL has none to offer.
\<close>

definition collection_resolved :: "env \<Rightarrow> vars \<Rightarrow> bool" where
  "collection_resolved e v = (truthy (currentCollectionName v) \<or> \<not> truthy (url_collectionName e))"

text \<open>Whether a rarity holds ASCII white space (its class token is then not valid).\<close>

definition has_white_space :: "string \<Rightarrow> bool" where
  "has_white_space s = list_ex ascii_white_space s"

section \<open>Example data\<close>

text \<open>Concrete cards, documents and responses, used to instantiate the theorems below.\<close>

definition card_c1 :: card where
  "card_c1 = \<lparr>card_id = ''c1'', card_name = ''Ember Fox'', rarity = ''Rare'', point_worth = 10,
              quantity = 5, date_got_in_stock = ''2024-05-01'', image_url = None\<rparr>"

definition card_c2 :: card where
  "card_c2 = \<lparr>card_id = ''c2'', card_name = ''Tide Owl'', rarity = ''Epic'', point_worth = 25,
              quantity = 2, date_got_in_stock = ''2024-05-02'', image_url = None\<rparr>"

definition card_c3 :: card where
  "card_c3 = \<lparr>card_id = ''c3'', card_name = ''Moss Golem'', rarity = ''Common'', point_worth = 3,
              quantity = 9, date_got_in_stock = ''2024-05-03'', image_url = None\<rparr>"

text \<open>A card whose rarity is made of two words.\<close>

definition card_ultra :: card where
  "card_ultra = \<lparr>card_id = ''c4'', card_name = ''Sky Wyrm'', rarity = ''Ultra Rare'', point_worth = 50,
                 quantity = 1, date_got_in_stock = ''2024-05-04'', image_url = None\<rparr>"

definition vars0 :: vars where
  "vars0 = \<lparr>currentPage = 1, itemsPerPage = Some 2, currentSortBy = ''name'',
            currentSortOrder = ''asc'', currentCollectionName = Some ''pokemon'',
            currentSearchQuery = None, totalPages = 1\<rparr>"

definition dom0 :: dom where
  "dom0 = \<lparr>loadingMessage_shown = False, errorMessage_shown = False, errorMessage_text = [],
           cardDisplayArea = [], paginationControlsTop = None, paginationControlsBottom = None,
           clearSearchButton_shown = False, collectionNameInput_value = ''pokemon'',
           sortBySelect_value = ''name'', sortOrderSelect_value = ''asc'',
           perPageSelect_value = ''2'', searchInput_value = []\<rparr>"

definition dom_two_cards :: dom where
  "dom_two_cards = dom0\<lparr>cardDisplayArea :=
      [CardItem (card_element_of vars0 card_c1), CardItem (card_element_of vars0 card_c2)]\<rparr>"

definition collection_page0 :: collection_page where
  "collection_page0 = snd (displayCollection (Some [card_c1, card_c2])
     \<lparr>currentCards = [card_c1, card_c2], activeCollectionName = Some ''my_cards'',
      my_cards_area = [], total_cards = ''0'', unique_cards = ''0'', modal_show = True,
      alerts = []\<rparr>)"

definition edit_form :: "string \<Rightarrow> form_data" where
  "edit_form ident = (\<lambda>name. if name = ''card-id'' then Some ident
      else if name = ''card-quantity'' then Some ''4'' else None)"

definition ok_response :: "'a \<Rightarrow> 'a response" where
  "ok_response x = \<lparr>status = 200, payload = Json None x\<rparr>"

definition env0 :: env where
  "env0 = \<lparr>url_collectionName = None, parseUrlParams = None,
            body_used_message = ''body stream already read''\<rparr>"

text \<open>
  A browser whose \<^verbatim>\<open>querySelector\<close> rejects every selector text built from an id that
  is not selector-safe.
\<close>

definition engine0 :: engine where
  "engine0 = \<lparr>css_select = (\<lambda>selector ns. Selector_throws ''not a valid selector''),
               set_on_null = (\<lambda>prop. ''Cannot set properties of null'')\<rparr>"

definition page0 :: browser where
  "page0 = \<lparr>vars = vars0, doc = dom0, in_flight = [], issued = [], uncaught = []\<rparr>"

text \<open>A 2xx list answer with the given cards and pagination data.\<close>

definition page_of_cards :: "card list \<Rightarrow> int \<Rightarrow> int \<Rightarrow> list_result fetch_result" where
  "page_of_cards cs current pages =
     Resolved \<lparr>status = 200,
               payload = Json None (ListObject (Some cs)
                 (Some \<lparr>total_pages = pages, current_page = current,
                        total_items = 3, per_page = Some 2\<rparr>))\<rparr>"

text \<open>
  Event sequences after page load. \<open>first_load\<close>: the initial fetch is answered with
  page 1 of 2. \<open>overlapping_fetches\<close>: the sort order is changed (fetch A, page 1), Next
  is clicked before A is answered (fetch B, page 2), B is answered, then A.
  \<open>failed_refresh\<close>: the sort order is changed and that fetch is rejected.
  \<open>page_beyond_last\<close>: Next is clicked and the server, whose data has shrunk to one
  page meanwhile, answers page 2 with no cards.
\<close>

definition first_load :: "event list" where
  "first_load = [Settle 0 (page_of_cards [card_c1, card_c3] 1 2)]"

definition overlapping_fetches :: "event list" where
  "overlapping_fetches =
     first_load @
     [Change_sortOrderSelect ''desc'', Click_next_top,
      Settle 1 (page_of_cards [card_c1] 2 2),
      Settle 0 (page_of_cards [card_c2, card_c3] 1 2)]"

definition failed_refresh :: "event list" where
  "failed_refresh = first_load @ [Change_sortOrderSelect ''desc'', Settle 0 (Rejected ''Failed to fetch'')]"

definition page_beyond_last :: "event list" where
  "page_beyond_last = first_load @ [Click_next_top, Settle 0 (page_of_cards [] 2 1)]"

section \<open>Properties of the collection page\<close>

lemma foldl_quantity:
  "foldl (\<lambda>sum c. sum + quantity c) a cs = a + sum_list (map quantity cs)"
  by (induction cs arbitrary: a) auto

lemma show_nat_0: "show_nat 0 = ''0''"
  by (simp add: show_nat.simps digit_char_def)

lemma lower_keeps_white_space:
  "ascii_white_space (let n = (of_char c :: nat) in if 65 \<le> n \<and> n \<le> 90 then char_of (n + 32) else c)
     = ascii_white_space c"
proof (cases "65 \<le> (of_char c :: nat) \<and> (of_char c :: nat) \<le> 90")
  case True
  then have "(of_char (char_of ((of_char c :: nat) + 32) :: char) :: nat) = of_char c + 32"
    by (simp add: of_char_of)
  with True show ?thesis
    by (simp add: ascii_white_space_def Let_def)
next
  case False
  then show ?thesis by (auto simp add: Let_def)
qed

lemma rarity_token_valid:
  "valid_token (rarity_class r) \<longleftrightarrow> \<not> has_white_space r"
proof -
  have "list_all (\<lambda>c. \<not> ascii_white_space c) (toLowerCase r) = list_all (\<lambda>c. \<not> ascii_white_space c) r"
    unfolding toLowerCase_def
    by (induction r) (simp_all add: lower_keeps_white_space)
  then show ?thesis
    by (simp add: valid_token_def rarity_class_def has_white_space_def ascii_white_space_def
          list_ex_iff list_all_iff)
qed

lemma append_tiles_complete:
  "\<forall>c \<in> set cs. \<not> has_white_space (rarity c) \<Longrightarrow>
     append_tiles cs area = (True, area @ map (\<lambda>c. CardTile (card_tile c)) cs)"
  by (induction cs arbitrary: area) (simp_all add: rarity_token_valid)

lemma append_tiles_throws:
  "\<exists>c \<in> set cs. has_white_space (rarity c) \<Longrightarrow> fst (append_tiles cs area) = False"
  by (induction cs arbitrary: area) (auto simp add: rarity_token_valid)

lemma displayCollection_returns:
  assumes "\<forall>c \<in> set cs. \<not> has_white_space (rarity c)" and "cs \<noteq> []"
  shows "displayCollection (Some cs) pg =
     (Returned, pg\<lparr>my_cards_area := map (\<lambda>c. CardTile (card_tile c)) cs,
                   total_cards := show_int (sum_list (map quantity cs)),
                   unique_cards := show_nat (card (set (map card_id cs)))\<rparr>)"
  using assms
  by (simp add: displayCollection_def append_tiles_complete foldl_quantity length_remdups_card_conv)

lemma displayCollection_throws:
  assumes "\<exists>c \<in> set cs. has_white_space (rarity c)"
  shows "fst (displayCollection (Some cs) pg) = Threw ''InvalidCharacterError''
       \<and> total_cards (snd (displayCollection (Some cs) pg)) = total_cards pg
       \<and> unique_cards (snd (displayCollection (Some cs) pg)) = unique_cards pg"
proof -
  from assms have "cs \<noteq> []" by auto
  moreover obtain area where "append_tiles cs [] = (False, area)"
    using append_tiles_throws [OF assms, of "[]"] by (cases "append_tiles cs []") auto
  ultimately show ?thesis
    by (simp add: displayCollection_def)
qed

text \<open>
  Claim C9. For a card list that \<^verbatim>\<open>displayCollection\<close> renders (no rarity holds ASCII
  white space, so that every class token is accepted and the function returns), the
  "total cards" counter is the decimal text of the sum of the \<open>quantity\<close> fields of the
  list, and the "unique cards" counter is the decimal text of the number of distinct
  \<open>id\<close> values in it; for a missing list and for an empty list both counters show \<open>0\<close>.
\<close>

theorem displayCollection_counters:
  "((\<forall>c \<in> set cs. \<not> has_white_space (rarity c)) \<longrightarrow>
      fst (displayCollection (Some cs) pg) = Returned
      \<and> total_cards (snd (displayCollection (Some cs) pg)) = show_int (sum_list (map quantity cs))
      \<and> unique_cards (snd (displayCollection (Some cs) pg))
          = show_nat (card (set (map card_id cs))))
   \<and> total_cards (snd (displayCollection None pg)) = ''0''
   \<and> unique_cards (snd (displayCollection None pg)) = ''0''
   \<and> total_cards (snd (displayCollection (Some []) pg)) = ''0''
   \<and> unique_cards (snd (displayCollection (Some []) pg)) = ''0''"
proof -
  have "fst (displayCollection (Some cs) pg) = Returned
      \<and> total_cards (snd (displayCollection (Some cs) pg)) = show_int (sum_list (map quantity cs))
      \<and> unique_cards (snd (displayCollection (Some cs) pg))
          = show_nat (card (set (map card_id cs)))"
    if ok: "\<forall>c \<in> set cs. \<not> has_white_space (rarity c)"
  proof (cases "cs = []")
    case True
    then show ?thesis
      by (simp add: displayCollection_def show_int_def show_nat_0)
  next
    case False
    then show ?thesis
      by (simp add: displayCollection_returns [OF ok False])
  qed
  then show ?thesis
    by (simp add: displayCollection_def)
qed

theorem displayCollection_counters_witness:
  "\<not> has_white_space (rarity card_c1) \<and> \<not> has_white_space (rarity card_c2)
   \<and> \<not> has_white_space (rarity card_c3)
   \<and> total_cards (snd (displayCollection (Some [card_c1, card_c2, card_c3, card_c2]) collection_page0))
       = ''18''
   \<and> unique_cards (snd (displayCollection (Some [card_c1, card_c2, card_c3, card_c2]) collection_page0))
       = ''3''"
proof -
  have ws: "\<not> has_white_space (rarity card_c1)" "\<not> has_white_space (rarity card_c2)"
    "\<not> has_white_space (rarity card_c3)"
    by (simp_all add: has_white_space_def ascii_white_space_def card_c1_def card_c2_def card_c3_def)
  have ids: "card (set (map card_id [card_c1, card_c2, card_c3, card_c2])) = 3"
    unfolding card_set by (simp add: card_c1_def card_c2_def card_c3_def)
  have total: "sum_list (map quantity [card_c1, card_c2, card_c3, card_c2]) = 18"
    by (simp add: card_c1_def card_c2_def card_c3_def)
  have "show_int 18 = ''18''" "show_nat 3 = ''3''"
    by (simp_all add: show_int_def show_nat.simps digit_char_def)
  with ws ids total
    displayCollection_counters [of "[card_c1, card_c2, card_c3, card_c2]" collection_page0]
  show ?thesis
    by simp
qed

text \<open>
  Where a rarity does hold white space, \<^verbatim>\<open>classList.add\<close> throws: the tiles before
  that card have been drawn, and the counters keep their former text.
\<close>

lemma white_space_rarity_keeps_counters:
  "has_white_space (rarity card_ultra)
   \<and> fst (displayCollection (Some [card_c1, card_ultra, card_c2]) collection_page0)
       = Threw ''InvalidCharacterError''
   \<and> total_cards (snd (displayCollection (Some [card_c1, card_ultra, card_c2]) collection_page0))
       = total_cards collection_page0
   \<and> my_cards_area (snd (displayCollection (Some [card_c1, card_ultra, card_c2]) collection_page0))
       = [CardTile (card_tile card_c1)]"
proof -
  have ws: "has_white_space (rarity card_ultra)"
    by (simp add: has_white_space_def ascii_white_space_def card_ultra_def)
  have ok: "\<not> has_white_space (rarity card_c1)"
    by (simp add: has_white_space_def ascii_white_space_def card_c1_def)
  show ?thesis
    using ws ok
    by (simp add: displayCollection_def rarity_token_valid)
qed

section \<open>Merging the answer of an update\<close>

lemma has_card_id_simps [simp]:
  "has_card_id i (Paragraph t) = False"
  "has_card_id i (CardItem el) = (data_card_id el = i)"
  by (simp_all add: has_card_id_def)

lemma findIndex_None: "findIndex P xs = None \<longleftrightarrow> (\<forall>x \<in> set xs. \<not> P x)"
  by (induction xs) auto

lemma findIndex_Some:
  "findIndex P xs = Some k \<Longrightarrow> k < length xs \<and> P (xs ! k) \<and> (\<forall>j < k. \<not> P (xs ! j))"
proof (induction xs arbitrary: k)
  case Nil
  then show ?case by simp
next
  case (Cons x xs)
  show ?case
  proof (cases "P x")
    case True
    with Cons.prems show ?thesis by simp
  next
    case False
    with Cons.prems obtain k' where k': "findIndex P xs = Some k'" "k = Suc k'"
      by auto
    from Cons.IH [OF k'(1)] False k'(2) show ?thesis
      by (auto simp: less_Suc_eq_0_disj)
  qed
qed

lemma found_card:
  assumes "findIndex (has_card_id i) ns = Some k"
  shows "k < length ns \<and> (\<exists>el. ns ! k = CardItem el \<and> data_card_id el = i)"
proof -
  from findIndex_Some [OF assms] have k: "k < length ns" and h: "has_card_id i (ns ! k)"
    by simp_all
  from h show ?thesis
    using k by (cases "ns ! k") simp_all
qed

lemma assign_all_card:
  assumes "k < length ns" and "ns ! k = CardItem el"
  shows "assign_all g (Some k) (Some k) ws ns
           = (None, ns[k := CardItem (fold (\<lambda>w. snd (snd w)) ws el)])"
  using assms
proof (induction ws arbitrary: ns el)
  case Nil
  then have "ns[k := CardItem el] = ns"
    by (metis list_update_id)
  then show ?case by simp
next
  case (Cons w ws)
  obtain s nm f where w: "w = (s, nm, f)"
    by (cases w) auto
  have step: "write_slot (Some k) f ns = Some (ns[k := CardItem (f el)])"
    using Cons.prems by (simp add: write_slot_def)
  have "assign_all g (Some k) (Some k) ws (ns[k := CardItem (f el)])
          = (None, (ns[k := CardItem (f el)])[k := CardItem (fold (\<lambda>w. snd (snd w)) ws (f el))])"
    using Cons.prems by (intro Cons.IH) simp_all
  then show ?case
    using step by (simp add: w split: slot.splits)
qed

lemma touch_card_found:
  assumes "selector_safe i" and "findIndex (has_card_id i) (cardDisplayArea d) = Some k"
  shows "\<exists>el. cardDisplayArea d ! k = CardItem el \<and> data_card_id el = i
            \<and> touch_card g i ws d
                = (None, d\<lparr>cardDisplayArea :=
                     (cardDisplayArea d)[k := CardItem (fold (\<lambda>w. snd (snd w)) ws el)]\<rparr>)"
proof -
  from found_card [OF assms(2)] obtain el
    where k: "k < length (cardDisplayArea d)" and el: "cardDisplayArea d ! k = CardItem el"
      and i: "data_card_id el = i"
    by blast
  show ?thesis
    using el i assms
    by (simp add: touch_card_def querySelector_card_def assign_all_card [OF k el])
qed

lemma touch_card_absent:
  assumes "selector_safe i" and "findIndex (has_card_id i) (cardDisplayArea d) = None"
  shows "touch_card g i ws d = (None, d)"
  using assms by (simp add: touch_card_def querySelector_card_def)

lemma touch_card_safe:
  assumes "selector_safe i"
  shows "fst (touch_card g i ws d) = None"
proof (cases "findIndex (has_card_id i) (cardDisplayArea d)")
  case None
  then show ?thesis by (simp add: touch_card_absent [OF assms])
next
  case (Some k)
  from touch_card_found [OF assms Some, of g ws] show ?thesis
    by auto
qed

lemma updateQuantity_ok:
  assumes "response_ok resp" and "payload resp = Json dt updatedCard"
  shows "updateQuantity g documentId change coll (Resolved resp) d =
     \<lparr>sent = [\<lparr>http_method = ''PATCH'',
                 url = ''http://localhost:8080/gacha/api/v1/storage/cards/'' @ documentId
                       @ ''/quantity'' @ collection_suffix coll,
                 sent_body = QuantityChange change\<rparr>],
      alerted = (case fst (touch_card g documentId
                    [(Quantity_value, ''textContent'',
                      \<lambda>el. el\<lparr>quantity_value := show_int (quantity updatedCard)\<rparr>)] d) of
                   None \<Rightarrow> []
                 | Some msg \<Rightarrow> [''Failed to update quantity: '' @ msg]),
      page = snd (touch_card g documentId
                    [(Quantity_value, ''textContent'',
                      \<lambda>el. el\<lparr>quantity_value := show_int (quantity updatedCard)\<rparr>)] d),
      uncaught_error = None\<rparr>"
  using assms
  by (simp add: updateQuantity_def settle_update_def Let_def split: prod.splits option.splits)

lemma updateQuantity_sent:
  "sent (updateQuantity g documentId change coll r d) =
     [\<lparr>http_method = ''PATCH'',
       url = ''http://localhost:8080/gacha/api/v1/storage/cards/'' @ documentId
             @ ''/quantity'' @ collection_suffix coll,
       sent_body = QuantityChange change\<rparr>]"
  by (simp add: updateQuantity_def Let_def)

lemma updateQuantity_patches_element:
  assumes "response_ok resp" and "payload resp = Json dt updatedCard"
    and "selector_safe documentId"
    and "findIndex (has_card_id documentId) (cardDisplayArea d) = Some k"
  shows "\<exists>el. cardDisplayArea d ! k = CardItem el \<and> data_card_id el = documentId
            \<and> updateQuantity g documentId change coll (Resolved resp) d
                = \<lparr>sent = [\<lparr>http_method = ''PATCH'',
                      url = ''http://localhost:8080/gacha/api/v1/storage/cards/'' @ documentId
                            @ ''/quantity'' @ collection_suffix coll,
                      sent_body = QuantityChange change\<rparr>],
                   alerted = [],
                   page = d\<lparr>cardDisplayArea := (cardDisplayArea d)
                       [k := CardItem (el\<lparr>quantity_value := show_int (quantity updatedCard)\<rparr>)]\<rparr>,
                   uncaught_error = None\<rparr>"
proof -
  from touch_card_found [OF assms(3,4), of g
      "[(Quantity_value, ''textContent'',
         \<lambda>el. el\<lparr>quantity_value := show_int (quantity updatedCard)\<rparr>)]"]
  obtain el where "cardDisplayArea d ! k = CardItem el" "data_card_id el = documentId"
    "touch_card g documentId
       [(Quantity_value, ''textContent'',
         \<lambda>el. el\<lparr>quantity_value := show_int (quantity updatedCard)\<rparr>)] d
     = (None, d\<lparr>cardDisplayArea := (cardDisplayArea d)
                  [k := CardItem (el\<lparr>quantity_value := show_int (quantity updatedCard)\<rparr>)]\<rparr>)"
    by auto
  then show ?thesis
    by (simp add: updateQuantity_ok [OF assms(1,2)])
qed

lemma updateQuantity_absent:
  assumes "response_ok resp" and "payload resp = Json dt updatedCard"
    and "selector_safe documentId"
    and "findIndex (has_card_id documentId) (cardDisplayArea d) = None"
  shows "updateQuantity g documentId change coll (Resolved resp) d
           = \<lparr>sent = [\<lparr>http_method = ''PATCH'',
                 url = ''http://localhost:8080/gacha/api/v1/storage/cards/'' @ documentId
                       @ ''/quantity'' @ collection_suffix coll,
                 sent_body = QuantityChange change\<rparr>],
              alerted = [], page = d, uncaught_error = None\<rparr>"
  by (simp add: updateQuantity_ok [OF assms(1,2)] touch_card_absent [OF assms(3,4)])

lemma updateCard_ok:
  assumes "response_ok resp" and "payload resp = Json dt updatedCard"
  shows "updateCard formData (Resolved resp) pg =
     ([updateCard_request formData],
      (case findIndex (\<lambda>c. Some (card_id c) = formData ''card-id'') (currentCards pg) of
         None \<Rightarrow> displaySuccess ''Card updated successfully!'' (closeModal pg)
       | Some index \<Rightarrow>
           (case displayCollection (Some ((currentCards pg)[index := updatedCard]))
                   (pg\<lparr>currentCards := (currentCards pg)[index := updatedCard]\<rparr>) of
              (Returned, pg1) \<Rightarrow> displaySuccess ''Card updated successfully!'' (closeModal pg1)
            | (Threw err, pg1) \<Rightarrow>
                displayError_alert ''Failed to update card. Please try again.'' pg1)))"
  using assms by (simp add: updateCard_def Let_def split: option.split)

lemma updateCard_replaces_card:
  assumes "response_ok resp" and "payload resp = Json dt updatedCard"
    and "formData ''card-id'' = Some documentId"
    and "findIndex (\<lambda>c. card_id c = documentId) (currentCards pg) = Some m"
    and "\<not> has_white_space (rarity updatedCard)"
    and "\<forall>c \<in> set (currentCards pg). \<not> has_white_space (rarity c)"
  shows "snd (updateCard formData (Resolved resp) pg)
           = pg\<lparr>currentCards := (currentCards pg)[m := updatedCard],
                my_cards_area := map (\<lambda>c. CardTile (card_tile c)) ((currentCards pg)[m := updatedCard]),
                total_cards := show_int (sum_list (map quantity ((currentCards pg)[m := updatedCard]))),
                unique_cards := show_nat (card (set (map card_id ((currentCards pg)[m := updatedCard])))),
                modal_show := False,
                alerts := alerts pg @ [''Card updated successfully!'']\<rparr>"
proof -
  from findIndex_Some [OF assms(4)] have "m < length (currentCards pg)"
    by simp
  then have nonempty: "(currentCards pg)[m := updatedCard] \<noteq> []"
    by auto
  have clean: "\<forall>c \<in> set ((currentCards pg)[m := updatedCard]). \<not> has_white_space (rarity c)"
    using assms(5,6) set_update_subset_insert [of "currentCards pg" m updatedCard] by auto
  have idx: "findIndex (\<lambda>c. Some (card_id c) = formData ''card-id'') (currentCards pg) = Some m"
    using assms(3,4) by simp
  show ?thesis
    by (simp add: updateCard_ok [OF assms(1,2)] idx displayCollection_returns [OF clean nonempty]
          displaySuccess_def closeModal_def)
qed

text \<open>
  Claim C8. A successful quantity update on a displayed card: the server answers with the
  record of the card that was asked for (its id is the id sent). In the card browser,
  for a selector-safe id on an element of the card area, \<^verbatim>\<open>updateQuantity\<close> changes
  the first element carrying that id, and of it only the quantity text, which becomes the
  returned quantity; every other node, the order of the nodes and the rest of the
  document are as before, no alert is raised and the only request is the PATCH (the
  function is outside the closure and cannot touch the variables or start a list fetch).
  On the collection page, for a form that delivers the card's id and cards whose rarities
  hold no white space, \<^verbatim>\<open>updateCard\<close> replaces the held card at the position of the
  id by the returned record, redraws the tiles in the same order, the tile at that
  position carrying the markup of the returned record (its quantity included), keeps the
  collection name, reports success and sends the PUT only. (The form of
  \<^verbatim>\<open>collection.html\<close> names none of its controls and so delivers no id; that case is
  part of claim C10 below.)
\<close>

theorem quantity_update_in_place:
  assumes "response_ok resp" and "payload resp = Json dt updatedCard"
    and "card_id updatedCard = documentId"
  shows "(selector_safe documentId
           \<and> findIndex (has_card_id (card_id updatedCard)) (cardDisplayArea d) = Some k \<longrightarrow>
           (\<exists>el. cardDisplayArea d ! k = CardItem el \<and> data_card_id el = card_id updatedCard
              \<and> page (updateQuantity g documentId change coll (Resolved resp) d)
                  = d\<lparr>cardDisplayArea := (cardDisplayArea d)
                         [k := CardItem (el\<lparr>quantity_value := show_int (quantity updatedCard)\<rparr>)]\<rparr>)
           \<and> alerted (updateQuantity g documentId change coll (Resolved resp) d) = []
           \<and> uncaught_error (updateQuantity g documentId change coll (Resolved resp) d) = None
           \<and> map http_method (sent (updateQuantity g documentId change coll (Resolved resp) d))
               = [''PATCH''])
       \<and> (formData ''card-id'' = Some documentId
           \<and> findIndex (\<lambda>c. card_id c = card_id updatedCard) (currentCards pg) = Some m
           \<and> \<not> has_white_space (rarity updatedCard)
           \<and> (\<forall>c \<in> set (currentCards pg). \<not> has_white_space (rarity c)) \<longrightarrow>
           currentCards (snd (updateCard formData (Resolved resp) pg))
               = (currentCards pg)[m := updatedCard]
           \<and> my_cards_area (snd (updateCard formData (Resolved resp) pg))
               = map (\<lambda>c. CardTile (card_tile c)) ((currentCards pg)[m := updatedCard])
           \<and> my_cards_area (snd (updateCard formData (Resolved resp) pg)) ! m
               = CardTile
                   \<lparr>tile_classes = [''card-item'', ''rarity-'' @ toLowerCase (rarity updatedCard)],
                    tile_innerHTML =
                      line_break 16 @ ''<img src='' @ double_quote
                        @ (if truthy (image_url updatedCard) then or_empty (image_url updatedCard)
                           else placeholder_image)
                        @ double_quote @ '' alt='' @ double_quote @ card_name updatedCard
                        @ double_quote @ ''>''
                      @ line_break 16 @ ''<h4>'' @ card_name updatedCard @ ''</h4>''
                      @ line_break 16 @ ''<p>Rarity: '' @ rarity updatedCard @ ''</p>''
                      @ line_break 16 @ ''<p>Quantity: '' @ show_int (quantity updatedCard) @ ''</p>''
                      @ line_break 16 @ ''<p>Points: '' @ show_int (point_worth updatedCard) @ ''</p>''
                      @ line_break 12\<rparr>
           \<and> activeCollectionName (snd (updateCard formData (Resolved resp) pg))
               = activeCollectionName pg
           \<and> alerts (snd (updateCard formData (Resolved resp) pg))
               = alerts pg @ [''Card updated successfully!'']
           \<and> map http_method (fst (updateCard formData (Resolved resp) pg)) = [''PUT''])"
proof (intro conjI impI)
  assume h: "selector_safe documentId
    \<and> findIndex (has_card_id (card_id updatedCard)) (cardDisplayArea d) = Some k"
  then have safe: "selector_safe documentId"
    and idx: "findIndex (has_card_id documentId) (cardDisplayArea d) = Some k"
    using assms(3) by simp_all
  from updateQuantity_patches_element [OF assms(1,2) safe idx, of g change coll]
  obtain el where el: "cardDisplayArea d ! k = CardItem el" "data_card_id el = documentId"
    and res: "updateQuantity g documentId change coll (Resolved resp) d
                = \<lparr>sent = [\<lparr>http_method = ''PATCH'',
                      url = ''http://localhost:8080/gacha/api/v1/storage/cards/'' @ documentId
                            @ ''/quantity'' @ collection_suffix coll,
                      sent_body = QuantityChange change\<rparr>],
                   alerted = [],
                   page = d\<lparr>cardDisplayArea := (cardDisplayArea d)
                       [k := CardItem (el\<lparr>quantity_value := show_int (quantity updatedCard)\<rparr>)]\<rparr>,
                   uncaught_error = None\<rparr>"
    by blast
  show "\<exists>el. cardDisplayArea d ! k = CardItem el \<and> data_card_id el = card_id updatedCard
              \<and> page (updateQuantity g documentId change coll (Resolved resp) d)
                  = d\<lparr>cardDisplayArea := (cardDisplayArea d)
                         [k := CardItem (el\<lparr>quantity_value := show_int (quantity updatedCard)\<rparr>)]\<rparr>"
    using el assms(3) by (simp add: res)
  show "alerted (updateQuantity g documentId change coll (Resolved resp) d) = []"
    by (simp add: res)
  show "uncaught_error (updateQuantity g documentId change coll (Resolved resp) d) = None"
    by (simp add: res)
next
  show "map http_method (sent (updateQuantity g documentId change coll (Resolved resp) d)) = [''PATCH'']"
    by (simp add: updateQuantity_sent)
next
  assume h: "formData ''card-id'' = Some documentId
     \<and> findIndex (\<lambda>c. card_id c = card_id updatedCard) (currentCards pg) = Some m
     \<and> \<not> has_white_space (rarity updatedCard)
     \<and> (\<forall>c \<in> set (currentCards pg). \<not> has_white_space (rarity c))"
  then have idx: "findIndex (\<lambda>c. card_id c = documentId) (currentCards pg) = Some m"
    using assms(3) by simp
  from h have sent_id: "formData ''card-id'' = Some documentId"
    and clean: "\<not> has_white_space (rarity updatedCard)"
      "\<forall>c \<in> set (currentCards pg). \<not> has_white_space (rarity c)"
    by simp_all
  note r = updateCard_replaces_card [where formData = formData, OF assms(1,2) sent_id idx clean]
  from findIndex_Some [OF idx] have m: "m < length (currentCards pg)"
    by simp
  show "currentCards (snd (updateCard formData (Resolved resp) pg))
               = (currentCards pg)[m := updatedCard]"
    by (simp add: r)
  show "my_cards_area (snd (updateCard formData (Resolved resp) pg))
               = map (\<lambda>c. CardTile (card_tile c)) ((currentCards pg)[m := updatedCard])"
    by (simp add: r)
  show "my_cards_area (snd (updateCard formData (Resolved resp) pg)) ! m
               = CardTile
                   \<lparr>tile_classes = [''card-item'', ''rarity-'' @ toLowerCase (rarity updatedCard)],
                    tile_innerHTML =
                      line_break 16 @ ''<img src='' @ double_quote
                        @ (if truthy (image_url updatedCard) then or_empty (image_url updatedCard)
                           else placeholder_image)
                        @ double_quote @ '' alt='' @ double_quote @ card_name updatedCard
                        @ double_quote @ ''>''
                      @ line_break 16 @ ''<h4>'' @ card_name updatedCard @ ''</h4>''
                      @ line_break 16 @ ''<p>Rarity: '' @ rarity updatedCard @ ''</p>''
                      @ line_break 16 @ ''<p>Quantity: '' @ show_int (quantity updatedCard) @ ''</p>''
                      @ line_break 16 @ ''<p>Points: '' @ show_int (point_worth updatedCard) @ ''</p>''
                      @ line_break 12\<rparr>"
    using m by (simp add: r card_tile_def card_markup_def rarity_class_def)
  show "activeCollectionName (snd (updateCard formData (Resolved resp) pg))
               = activeCollectionName pg"
    by (simp add: r)
  show "alerts (snd (updateCard formData (Resolved resp) pg))
               = alerts pg @ [''Card updated successfully!'']"
    by (simp add: r)
next
  show "map http_method (fst (updateCard formData (Resolved resp) pg)) = [''PUT'']"
    by (simp add: updateCard_ok [OF assms(1,2)] updateCard_request_def)
qed

theorem quantity_update_in_place_witness:
  "response_ok (ok_response (card_c1\<lparr>quantity := 4\<rparr>))
   \<and> selector_safe ''c1''
   \<and> findIndex (has_card_id ''c1'') (cardDisplayArea dom_two_cards) = Some 0
   \<and> findIndex (\<lambda>c. card_id c = ''c1'') (currentCards collection_page0) = Some 0
   \<and> \<not> has_white_space (rarity card_c1) \<and> \<not> has_white_space (rarity card_c2)
   \<and> quantity_value (card_element_of vars0 card_c1) = ''5''
   \<and> page (updateQuantity engine0 ''c1'' (- 1) (Some ''pokemon'')
             (Resolved (ok_response (card_c1\<lparr>quantity := 4\<rparr>))) dom_two_cards)
       = dom_two_cards\<lparr>cardDisplayArea :=
           [CardItem ((card_element_of vars0 card_c1)\<lparr>quantity_value := ''4''\<rparr>),
            CardItem (card_element_of vars0 card_c2)]\<rparr>
   \<and> currentCards (snd (updateCard (edit_form ''c1'')
             (Resolved (ok_response (card_c1\<lparr>quantity := 4\<rparr>))) collection_page0))
       = [card_c1\<lparr>quantity := 4\<rparr>, card_c2]
   \<and> alerts (snd (updateCard (edit_form ''c1'')
             (Resolved (ok_response (card_c1\<lparr>quantity := 4\<rparr>))) collection_page0))
       = [''Card updated successfully!'']"
proof -
  define answer where "answer = card_c1\<lparr>quantity := 4\<rparr>"
  have facts: "response_ok (ok_response answer)"
    "payload (ok_response answer) = Json None answer"
    "card_id answer = ''c1''"
    by (simp_all add: answer_def ok_response_def response_ok_def card_c1_def)
  have safe: "selector_safe ''c1''"
    by (simp add: selector_safe_def)
  have area: "cardDisplayArea dom_two_cards
      = [CardItem (card_element_of vars0 card_c1), CardItem (card_element_of vars0 card_c2)]"
    by (simp add: dom_two_cards_def)
  have shown_id: "findIndex (has_card_id ''c1'') (cardDisplayArea dom_two_cards) = Some 0"
    by (simp add: area card_element_of_def card_c1_def)
  have white: "\<not> has_white_space (rarity card_c1)" "\<not> has_white_space (rarity card_c2)"
    "\<not> has_white_space (rarity answer)"
    by (simp_all add: answer_def has_white_space_def ascii_white_space_def card_c1_def card_c2_def)
  have held: "currentCards collection_page0 = [card_c1, card_c2]" "alerts collection_page0 = []"
    by (simp_all add: collection_page0_def displayCollection_def rarity_token_valid white)
  have held_id: "findIndex (\<lambda>c. card_id c = ''c1'') (currentCards collection_page0) = Some 0"
    by (simp add: held card_c1_def)
  have form: "edit_form ''c1'' ''card-id'' = Some ''c1''"
    by (simp add: edit_form_def)
  have texts: "quantity_value (card_element_of vars0 card_c1) = ''5''"
    "show_int (quantity answer) = ''4''"
    by (simp_all add: answer_def card_element_of_def card_c1_def show_int_def show_nat.simps
          digit_char_def)
  note inst = quantity_update_in_place [OF facts, where d = dom_two_cards and k = 0
      and g = engine0 and change = "- 1" and coll = "Some ''pokemon''"
      and formData = "edit_form ''c1''" and pg = collection_page0 and m = 0]
  have "selector_safe ''c1''
      \<and> findIndex (has_card_id (card_id answer)) (cardDisplayArea dom_two_cards) = Some 0"
    using safe shown_id facts(3) by simp
  from inst [THEN conjunct1, THEN mp, OF this]
  obtain el where el: "cardDisplayArea dom_two_cards ! 0 = CardItem el"
    and patched: "page (updateQuantity engine0 ''c1'' (- 1) (Some ''pokemon'')
        (Resolved (ok_response answer)) dom_two_cards)
      = dom_two_cards\<lparr>cardDisplayArea := (cardDisplayArea dom_two_cards)
          [0 := CardItem (el\<lparr>quantity_value := show_int (quantity answer)\<rparr>)]\<rparr>"
    by blast
  from el have "el = card_element_of vars0 card_c1"
    by (simp add: area)
  with patched have browser: "page (updateQuantity engine0 ''c1'' (- 1) (Some ''pokemon'')
        (Resolved (ok_response answer)) dom_two_cards)
      = dom_two_cards\<lparr>cardDisplayArea :=
           [CardItem ((card_element_of vars0 card_c1)\<lparr>quantity_value := ''4''\<rparr>),
            CardItem (card_element_of vars0 card_c2)]\<rparr>"
    by (simp add: area texts)
  have "edit_form ''c1'' ''card-id'' = Some ''c1''
      \<and> findIndex (\<lambda>c. card_id c = card_id answer) (currentCards collection_page0) = Some 0
      \<and> \<not> has_white_space (rarity answer)
      \<and> (\<forall>c \<in> set (currentCards collection_page0). \<not> has_white_space (rarity c))"
    using form held_id facts(3) white by (simp add: held)
  from inst [THEN conjunct2, THEN mp, OF this]
  have collection: "currentCards (snd (updateCard (edit_form ''c1'')
        (Resolved (ok_response answer)) collection_page0)) = [answer, card_c2]"
    "alerts (snd (updateCard (edit_form ''c1'')
        (Resolved (ok_response answer)) collection_page0)) = [''Card updated successfully!'']"
    by (simp_all add: held)
  show ?thesis
    using facts(1) safe shown_id held_id white(1,2) texts(1) browser collection
    unfolding answer_def by blast
qed

text \<open>
  Claim C10. A successful update whose card id is on no element of the card area, or
  among no held card of the collection page: for a selector-safe id \<^verbatim>\<open>updateQuantity\<close>
  leaves the document as it was, raises no alert and throws nothing; \<^verbatim>\<open>updateCard\<close>
  leaves the held cards, the tiles and the counters as they were, closes the modal and
  reports success, both when the form delivers the id and when it delivers none. The
  answer is dropped.
\<close>

theorem unmatched_update_dropped:
  assumes "response_ok resp" and "payload resp = Json dt updatedCard"
    and "card_id updatedCard = documentId"
  shows "(selector_safe documentId
           \<and> (\<forall>n \<in> set (cardDisplayArea d). \<not> has_card_id (card_id updatedCard) n) \<longrightarrow>
           page (updateQuantity g documentId change coll (Resolved resp) d) = d
           \<and> alerted (updateQuantity g documentId change coll (Resolved resp) d) = []
           \<and> uncaught_error (updateQuantity g documentId change coll (Resolved resp) d) = None)
       \<and> (formData ''card-id'' = None
           \<or> (formData ''card-id'' = Some documentId
              \<and> card_id updatedCard \<notin> set (map card_id (currentCards pg))) \<longrightarrow>
           snd (updateCard formData (Resolved resp) pg)
             = pg\<lparr>modal_show := False, alerts := alerts pg @ [''Card updated successfully!'']\<rparr>)"
proof (intro conjI impI)
  assume h: "selector_safe documentId
    \<and> (\<forall>n \<in> set (cardDisplayArea d). \<not> has_card_id (card_id updatedCard) n)"
  then have safe: "selector_safe documentId"
    and none: "findIndex (has_card_id documentId) (cardDisplayArea d) = None"
    using assms(3) by (simp_all add: findIndex_None)
  note r = updateQuantity_absent [OF assms(1,2) safe none, of g change coll]
  show "page (updateQuantity g documentId change coll (Resolved resp) d) = d"
    by (simp add: r)
  show "alerted (updateQuantity g documentId change coll (Resolved resp) d) = []"
    by (simp add: r)
  show "uncaught_error (updateQuantity g documentId change coll (Resolved resp) d) = None"
    by (simp add: r)
next
  assume h: "formData ''card-id'' = None
     \<or> (formData ''card-id'' = Some documentId
        \<and> card_id updatedCard \<notin> set (map card_id (currentCards pg)))"
  then have "findIndex (\<lambda>c. Some (card_id c) = formData ''card-id'') (currentCards pg) = None"
    using assms(3) by (auto simp: findIndex_None image_iff)
  then show "snd (updateCard formData (Resolved resp) pg)
      = pg\<lparr>modal_show := False, alerts := alerts pg @ [''Card updated successfully!'']\<rparr>"
    by (simp add: updateCard_ok [OF assms(1,2)] displaySuccess_def closeModal_def)
qed

theorem unmatched_update_dropped_witness:
  "response_ok (ok_response card_c3)
   \<and> selector_safe ''c3''
   \<and> findIndex (has_card_id ''c3'') (cardDisplayArea dom_two_cards) = None
   \<and> editForm_data ''card-id'' = None
   \<and> page (updateQuantity engine0 ''c3'' 1 None (Resolved (ok_response card_c3)) dom_two_cards)
       = dom_two_cards
   \<and> alerted (updateQuantity engine0 ''c3'' 1 None (Resolved (ok_response card_c3)) dom_two_cards)
       = []
   \<and> snd (updateCard editForm_data (Resolved (ok_response card_c3)) collection_page0)
       = collection_page0\<lparr>modal_show := False, alerts := [''Card updated successfully!'']\<rparr>
   \<and> snd (updateCard (edit_form ''c3'') (Resolved (ok_response card_c3)) collection_page0)
       = collection_page0\<lparr>modal_show := False, alerts := [''Card updated successfully!'']\<rparr>"
proof -
  have facts: "response_ok (ok_response card_c3)"
    "payload (ok_response card_c3) = Json None card_c3"
    "card_id card_c3 = ''c3''"
    "selector_safe ''c3''"
    "findIndex (has_card_id ''c3'') (cardDisplayArea dom_two_cards) = None"
    "\<forall>n \<in> set (cardDisplayArea dom_two_cards). \<not> has_card_id (card_id card_c3) n"
    "editForm_data ''card-id'' = None"
    "edit_form ''c3'' ''card-id'' = Some ''c3''"
    "\<not> has_white_space (rarity card_c1)" "\<not> has_white_space (rarity card_c2)"
    by (simp_all add: ok_response_def response_ok_def card_c1_def card_c2_def card_c3_def
          selector_safe_def dom_two_cards_def dom0_def card_element_of_def edit_form_def
          editForm_data_def has_white_space_def ascii_white_space_def)
  have page: "currentCards collection_page0 = [card_c1, card_c2]" "alerts collection_page0 = []"
    by (simp_all add: collection_page0_def displayCollection_def rarity_token_valid facts)
  have held: "card_id card_c3 \<notin> set (map card_id (currentCards collection_page0))"
    by (simp add: page, simp add: card_c1_def card_c2_def card_c3_def)
  from unmatched_update_dropped [OF facts(1,2,3), of dom_two_cards engine0 1 None
      editForm_data collection_page0]
    unmatched_update_dropped [OF facts(1,2,3), of dom_two_cards engine0 1 None
      "edit_form ''c3''" collection_page0]
    facts held page
  show ?thesis
    by simp
qed

text \<open>
  With the form of \<^verbatim>\<open>collection.html\<close> the comparison with \<open>null\<close> matches no held
  card, whatever the answer: the held cards and the tiles are never changed.
\<close>

lemma updateCard_unmatched:
  assumes "findIndex (\<lambda>c. Some (card_id c) = formData ''card-id'') (currentCards pg) = None"
  shows "currentCards (snd (updateCard formData r pg)) = currentCards pg
   \<and> my_cards_area (snd (updateCard formData r pg)) = my_cards_area pg"
proof (cases r)
  case (Rejected msg)
  then show ?thesis
    by (simp add: updateCard_def displayError_alert_def Let_def)
next
  case (Resolved resp)
  show ?thesis
  proof (cases "payload resp")
    case (NotJson msg)
    with Resolved show ?thesis
      by (simp add: updateCard_def displayError_alert_def Let_def)
  next
    case (Json dt updatedCard)
    show ?thesis
    proof (cases "response_ok resp")
      case True
      from updateCard_ok [OF True Json, of formData pg] assms Resolved show ?thesis
        by (simp add: displaySuccess_def closeModal_def)
    next
      case False
      with Resolved show ?thesis
        by (simp add: updateCard_def displayError_alert_def Let_def)
    qed
  qed
qed

lemma nameless_form_never_merges:
  "currentCards (snd (updateCard editForm_data r pg)) = currentCards pg
   \<and> my_cards_area (snd (updateCard editForm_data r pg)) = my_cards_area pg"
  by (rule updateCard_unmatched) (simp add: findIndex_None editForm_data_def)

section \<open>Setting a quantity from the input\<close>

lemma parseInt_minus_one: "parseInt ''-1'' 0 = Some (- 1)"
  by (simp add: parseInt_def is_space_def digit_value_def digits_number_def)

lemma parseInt_abc: "parseInt ''abc'' 0 = None"
  by (simp add: parseInt_def is_space_def digit_value_def digits_number_def)

lemma parseInt_zero: "parseInt ''0'' 0 = Some 0"
  by (simp add: parseInt_def is_space_def digit_value_def digits_number_def)

lemma negative_input_sends_change:
  assumes "parseInt inputValue 0 = Some n" and "n < 0"
  shows "sent (updateQuantityByInput g documentId inputValue coll r1 r2 d)
           = sent (updateQuantity g documentId n coll r1 d)"
  using assms
  by (simp add: updateQuantityByInput_def Let_def split: prod.splits option.splits)

lemma nan_input_sends_nothing:
  assumes "parseInt inputValue 0 = None"
  shows "sent (updateQuantityByInput g documentId inputValue coll r1 r2 d) = []"
  using assms by (simp add: updateQuantityByInput_def)

lemma safe_id_reaches_check:
  assumes "selector_safe documentId" and "parseInt inputValue 0 = Some n"
  shows "\<exists>d1. touch_card g documentId [(Quantity_input, ''value'', \<lambda>el. el\<lparr>quantity_input := []\<rparr>)]
            (page (updateQuantity g documentId n coll r1 d)) = (None, d1)"
  using touch_card_safe [OF assms(1), of g
      "[(Quantity_input, ''value'', \<lambda>el. el\<lparr>quantity_input := []\<rparr>)]"
      "page (updateQuantity g documentId n coll r1 d)"]
  by (cases "touch_card g documentId [(Quantity_input, ''value'', \<lambda>el. el\<lparr>quantity_input := []\<rparr>)]
            (page (updateQuantity g documentId n coll r1 d))") simp

text \<open>
  Claim C2, at the inputs it names. For \<open>abc\<close> the function alerts and sends nothing, and
  for \<open>0\<close> it goes on to the PUT that sets the quantity. For \<open>-1\<close> the alert about a
  non-negative number is raised, but only after the value has been sent to the server
  as a change of \<open>-1\<close> by the PATCH of \<^verbatim>\<open>updateQuantity\<close>. The PATCH is sent for every
  id; what follows it is stated for selector-safe ids, for which the lookup that clears
  the input cannot throw.
\<close>

theorem updateQuantityByInput_negative_is_sent:
  "sent (updateQuantityByInput g documentId ''-1'' coll r1 r2 d)
     = [\<lparr>http_method = ''PATCH'',
         url = ''http://localhost:8080/gacha/api/v1/storage/cards/'' @ documentId
               @ ''/quantity'' @ collection_suffix coll,
         sent_body = QuantityChange (- 1)\<rparr>]
   \<and> (selector_safe documentId \<longrightarrow>
        alerted (updateQuantityByInput g documentId ''-1'' coll r1 r2 d)
          = alerted (updateQuantity g documentId (- 1) coll r1 d)
            @ [''Please enter a valid non-negative number for quantity.''])
   \<and> updateQuantityByInput g documentId ''abc'' coll r1 r2 d
     = \<lparr>sent = [], alerted = [''Please enter a valid number for quantity change.''], page = d,
        uncaught_error = None\<rparr>
   \<and> (selector_safe documentId \<longrightarrow>
        map sent_body (sent (updateQuantityByInput g documentId ''0'' coll r1 r2 d))
          = [QuantityChange 0, SetQuantity 0])"
proof (intro conjI impI)
  show "sent (updateQuantityByInput g documentId ''-1'' coll r1 r2 d)
     = [\<lparr>http_method = ''PATCH'',
         url = ''http://localhost:8080/gacha/api/v1/storage/cards/'' @ documentId
               @ ''/quantity'' @ collection_suffix coll,
         sent_body = QuantityChange (- 1)\<rparr>]"
    by (simp add: negative_input_sends_change [OF parseInt_minus_one] updateQuantity_sent)
next
  assume safe: "selector_safe documentId"
  from safe_id_reaches_check [OF safe parseInt_minus_one, of g coll r1 d]
  obtain d1 where "touch_card g documentId
      [(Quantity_input, ''value'', \<lambda>el. el\<lparr>quantity_input := []\<rparr>)]
      (page (updateQuantity g documentId (- 1) coll r1 d)) = (None, d1)"
    by blast
  then show "alerted (updateQuantityByInput g documentId ''-1'' coll r1 r2 d)
          = alerted (updateQuantity g documentId (- 1) coll r1 d)
            @ [''Please enter a valid non-negative number for quantity.'']"
    by (simp add: updateQuantityByInput_def parseInt_minus_one Let_def)
next
  show "updateQuantityByInput g documentId ''abc'' coll r1 r2 d
     = \<lparr>sent = [], alerted = [''Please enter a valid number for quantity change.''], page = d,
        uncaught_error = None\<rparr>"
    by (simp add: updateQuantityByInput_def parseInt_abc)
next
  assume safe: "selector_safe documentId"
  from safe_id_reaches_check [OF safe parseInt_zero, of g coll r1 d]
  obtain d1 where "touch_card g documentId
      [(Quantity_input, ''value'', \<lambda>el. el\<lparr>quantity_input := []\<rparr>)]
      (page (updateQuantity g documentId 0 coll r1 d)) = (None, d1)"
    by blast
  then show "map sent_body (sent (updateQuantityByInput g documentId ''0'' coll r1 r2 d))
          = [QuantityChange 0, SetQuantity 0]"
    by (simp add: updateQuantityByInput_def parseInt_zero Let_def updateQuantity_sent)
qed

theorem updateQuantityByInput_negative_is_sent_witness:
  "selector_safe ''c1''
   \<and> map sent_body (sent (updateQuantityByInput engine0 ''c1'' ''-1'' (Some ''pokemon'')
        (Resolved (ok_response (card_c1\<lparr>quantity := 4\<rparr>))) (Resolved (ok_response card_c1))
        dom_two_cards)) = [QuantityChange (- 1)]
   \<and> alerted (updateQuantityByInput engine0 ''c1'' ''-1'' (Some ''pokemon'')
        (Resolved (ok_response (card_c1\<lparr>quantity := 4\<rparr>))) (Resolved (ok_response card_c1))
        dom_two_cards) = [''Please enter a valid non-negative number for quantity.'']
   \<and> map sent_body (sent (updateQuantityByInput engine0 ''c1'' ''0'' (Some ''pokemon'')
        (Resolved (ok_response card_c1)) (Resolved (ok_response (card_c1\<lparr>quantity := 0\<rparr>)))
        dom_two_cards)) = [QuantityChange 0, SetQuantity 0]"
proof -
  have safe: "selector_safe ''c1''"
    by (simp add: selector_safe_def)
  have quiet: "alerted (updateQuantity engine0 ''c1'' (- 1) (Some ''pokemon'')
      (Resolved (ok_response (card_c1\<lparr>quantity := 4\<rparr>))) dom_two_cards) = []"
    by (simp add: updateQuantity_def settle_update_def ok_response_def response_ok_def
          touch_card_def querySelector_card_def safe dom_two_cards_def card_element_of_def
          card_c1_def write_slot_def)
  note negative = updateQuantityByInput_negative_is_sent [of engine0 "''c1''" "Some ''pokemon''"
      "Resolved (ok_response (card_c1\<lparr>quantity := 4\<rparr>))" "Resolved (ok_response card_c1)"
      dom_two_cards]
  note zero = updateQuantityByInput_negative_is_sent [of engine0 "''c1''" "Some ''pokemon''"
      "Resolved (ok_response card_c1)" "Resolved (ok_response (card_c1\<lparr>quantity := 0\<rparr>))"
      dom_two_cards]
  have a: "map sent_body (sent (updateQuantityByInput engine0 ''c1'' ''-1'' (Some ''pokemon'')
        (Resolved (ok_response (card_c1\<lparr>quantity := 4\<rparr>))) (Resolved (ok_response card_c1))
        dom_two_cards)) = [QuantityChange (- 1)]"
    by (simp add: negative [THEN conjunct1])
  have b: "alerted (updateQuantityByInput engine0 ''c1'' ''-1'' (Some ''pokemon'')
        (Resolved (ok_response (card_c1\<lparr>quantity := 4\<rparr>))) (Resolved (ok_response card_c1))
        dom_two_cards) = [''Please enter a valid non-negative number for quantity.'']"
    using negative [THEN conjunct2, THEN conjunct1, THEN mp, OF safe] quiet by simp
  have c: "map sent_body (sent (updateQuantityByInput engine0 ''c1'' ''0'' (Some ''pokemon'')
        (Resolved (ok_response card_c1)) (Resolved (ok_response (card_c1\<lparr>quantity := 0\<rparr>)))
        dom_two_cards)) = [QuantityChange 0, SetQuantity 0]"
    using zero [THEN conjunct2, THEN conjunct2, THEN conjunct2, THEN mp, OF safe] .
  show ?thesis
    using safe a b c by blast
qed

section \<open>Starting a list fetch\<close>

lemma searching_throws:
  assumes "truthy (currentCollectionName (vars st))"
    and "truthy (currentSearchQuery (vars st))"
    and "trim (or_empty (currentSearchQuery (vars st))) \<noteq> []"
  shows "issued (fetchAndDisplayCards_start e st) = issued st
       \<and> in_flight (fetchAndDisplayCards_start e st) = in_flight st
       \<and> uncaught (fetchAndDisplayCards_start e st)
           = uncaught st @ [TypeError ''Assignment to constant variable.'']"
  using assms by (simp add: fetchAndDisplayCards_start_def Let_def)

lemma not_searching_fetches:
  assumes "truthy (currentCollectionName (vars st))"
    and "\<not> (truthy (currentSearchQuery (vars st))
            \<and> trim (or_empty (currentSearchQuery (vars st))) \<noteq> [])"
  shows "issued (fetchAndDisplayCards_start e st) = issued st @ [list_url (vars st)]
       \<and> in_flight (fetchAndDisplayCards_start e st) = in_flight st @ [list_url (vars st)]
       \<and> uncaught (fetchAndDisplayCards_start e st) = uncaught st"
  using assms by (auto simp add: fetchAndDisplayCards_start_def Let_def)

text \<open>
  Claim C3, at a search for \<open>fox\<close> in the collection \<open>pokemon\<close>: the query parameters
  are built, but no request is sent, the function ends with a TypeError. Without a search
  query the request goes out with the parameters encoded in the URL.
\<close>

theorem search_query_aborts_fetch:
  "issued (step e Click_searchButton (page0\<lparr>doc := dom0\<lparr>searchInput_value := ''fox''\<rparr>\<rparr>)) = []
   \<and> in_flight (step e Click_searchButton (page0\<lparr>doc := dom0\<lparr>searchInput_value := ''fox''\<rparr>\<rparr>)) = []
   \<and> uncaught (step e Click_searchButton (page0\<lparr>doc := dom0\<lparr>searchInput_value := ''fox''\<rparr>\<rparr>))
       = [TypeError ''Assignment to constant variable.'']
   \<and> list_query (vars (step e Click_searchButton (page0\<lparr>doc := dom0\<lparr>searchInput_value := ''fox''\<rparr>\<rparr>)))
       = [(''page'', ''1''), (''per_page'', ''2''), (''sort_by'', ''name''),
          (''sort_order'', ''asc''), (''collectionName'', ''pokemon''), (''search_query'', ''fox'')]
   \<and> issued (step e Click_searchButton page0)
       = [''http://localhost:8080/gacha/api/v1/storage/cards?page=1&per_page=2&sort_by=name&sort_order=asc&collectionName=pokemon'']"
  by (simp add: step_def searchButton_click_def fetchAndDisplayCards_start_def page0_def dom0_def
        vars0_def Let_def truthy_def or_null_def or_empty_def trim_def is_space_def list_query_def
        list_url_def baseUrl_def show_int_def show_number_def show_nat.simps digit_char_def
        form_encode_def is_alnum_def)

section \<open>Settling a list fetch\<close>

lemma displayError_fields:
  "cardDisplayArea (displayError m d) = []"
  "paginationControlsTop (displayError m d) = None"
  "paginationControlsBottom (displayError m d) = None"
  "errorMessage_shown (displayError m d)"
  "errorMessage_text (displayError m d) = m"
  "\<not> loadingMessage_shown (displayError m d)"
  by (simp_all add: displayError_def renderPaginationControls_def)

text \<open>
  Claim C1 as stated fails. After page load and the first answer, fetch A (page 1) and
  fetch B (page 2) are in flight; B is answered first, A second. At the end the variable
  \<^verbatim>\<open>currentPage\<close> is 2, but the pagination controls show page 1 of 2, and the card
  area holds the card of B followed by the cards of A: the late answer for the superseded
  parameters was applied, not discarded.
\<close>

theorem overlapping_fetches_counterexample:
  "in_flight (run env0 (take 3 overlapping_fetches) (page_load env0 dom0))
     = [''http://localhost:8080/gacha/api/v1/storage/cards?page=1&per_page=2&sort_by=name&sort_order=desc&collectionName=pokemon'',
        ''http://localhost:8080/gacha/api/v1/storage/cards?page=2&per_page=2&sort_by=name&sort_order=desc&collectionName=pokemon'']
   \<and> currentPage (vars (run env0 overlapping_fetches (page_load env0 dom0))) = 2
   \<and> paginationControlsTop (doc (run env0 overlapping_fetches (page_load env0 dom0)))
       = Some \<lparr>prev_page = 0, prev_disabled = True, shown_current = 1, shown_total = 2,
                next_page = 2, next_disabled = False\<rparr>
   \<and> displayed_ids (cardDisplayArea (doc (run env0 overlapping_fetches (page_load env0 dom0))))
       = [''c1'', ''c2'', ''c3'']"
  by code_simp

text \<open>
  Claim C1 as amended. The script has no request token: every answer is applied when it
  arrives, on whatever state the page is in, whichever fetch it answers. A 2xx answer
  with cards and pagination data of at least one page appends its cards to the card area
  and replaces both pagination controls by those of its own pagination data; of the
  variables only \<^verbatim>\<open>totalPages\<close> changes. So the controls always show the page of the
  answer that arrived last.
\<close>

theorem response_applied_on_arrival:
  assumes "response_ok resp" and "payload resp = Json d (ListObject (Some cs) (Some pg))"
    and "cs \<noteq> []" and "0 < total_pages pg"
  shows "cardDisplayArea (doc (fetchAndDisplayCards_finish e (Resolved resp) st))
           = cardDisplayArea (doc st) @ map (\<lambda>c. CardItem (card_element_of (vars st) c)) cs
       \<and> paginationControlsTop (doc (fetchAndDisplayCards_finish e (Resolved resp) st))
           = Some \<lparr>prev_page = current_page pg - 1, prev_disabled = (current_page pg = 1),
                    shown_current = current_page pg, shown_total = total_pages pg,
                    next_page = current_page pg + 1,
                    next_disabled = (current_page pg = total_pages pg)\<rparr>
       \<and> paginationControlsBottom (doc (fetchAndDisplayCards_finish e (Resolved resp) st))
           = paginationControlsTop (doc (fetchAndDisplayCards_finish e (Resolved resp) st))
       \<and> vars (fetchAndDisplayCards_finish e (Resolved resp) st)
           = (vars st)\<lparr>totalPages := total_pages pg\<rparr>"
  using assms
  by (simp add: fetchAndDisplayCards_finish_def show_result_def Let_def
        renderPaginationControls_def updateActiveControls_def)

theorem response_applied_on_arrival_witness:
  "response_ok \<lparr>status = 200, payload = Json None (ListObject (Some [card_c2, card_c3])
       (Some \<lparr>total_pages = 2, current_page = 1, total_items = 3, per_page = Some 2\<rparr>))\<rparr>
   \<and> currentPage (vars (page0\<lparr>vars := vars0\<lparr>currentPage := 2\<rparr>, doc := dom_two_cards\<rparr>)) = 2
   \<and> displayed_ids (cardDisplayArea (doc (fetchAndDisplayCards_finish env0
         (Resolved \<lparr>status = 200, payload = Json None (ListObject (Some [card_c2, card_c3])
            (Some \<lparr>total_pages = 2, current_page = 1, total_items = 3, per_page = Some 2\<rparr>))\<rparr>)
         (page0\<lparr>vars := vars0\<lparr>currentPage := 2\<rparr>, doc := dom_two_cards\<rparr>))))
       = [''c1'', ''c2'', ''c2'', ''c3'']
   \<and> paginationControlsTop (doc (fetchAndDisplayCards_finish env0
         (Resolved \<lparr>status = 200, payload = Json None (ListObject (Some [card_c2, card_c3])
            (Some \<lparr>total_pages = 2, current_page = 1, total_items = 3, per_page = Some 2\<rparr>))\<rparr>)
         (page0\<lparr>vars := vars0\<lparr>currentPage := 2\<rparr>, doc := dom_two_cards\<rparr>)))
       = Some \<lparr>prev_page = 0, prev_disabled = True, shown_current = 1, shown_total = 2,
                next_page = 2, next_disabled = False\<rparr>"
  using response_applied_on_arrival [of
          "\<lparr>status = 200, payload = Json None (ListObject (Some [card_c2, card_c3])
              (Some \<lparr>total_pages = 2, current_page = 1, total_items = 3, per_page = Some 2\<rparr>))\<rparr>"
          None "[card_c2, card_c3]"
          "\<lparr>total_pages = 2, current_page = 1, total_items = 3, per_page = Some 2\<rparr>"
          env0 "page0\<lparr>vars := vars0\<lparr>currentPage := 2\<rparr>, doc := dom_two_cards\<rparr>"]
  by (simp add: response_ok_def page0_def dom_two_cards_def dom0_def card_element_of_def
        card_c1_def card_c2_def card_c3_def)

text \<open>
  Claim C4 as stated fails. Two cards are displayed after the first load; the sort order
  is changed and the new fetch is rejected: the card area is empty afterwards.
\<close>

theorem failed_refresh_counterexample:
  "displayed_ids (cardDisplayArea (doc (run env0 first_load (page_load env0 dom0)))) = [''c1'', ''c3'']
   \<and> cardDisplayArea (doc (run env0 failed_refresh (page_load env0 dom0))) = []
   \<and> errorMessage_text (doc (run env0 failed_refresh (page_load env0 dom0)))
       = ''Failed to load cards. Failed to fetch''"
  by code_simp

text \<open>
  Claim C4 as amended. Whenever a fetch fails, on first load or on a refetch alike, the
  card area is emptied, both pagination controls are removed, the error message is shown
  and the loading message hidden; the variables are untouched. (\<^verbatim>\<open>displayError\<close>
  clears the card area, and so does the start of every fetch.)
\<close>

theorem failed_fetch_clears_cards:
  assumes "fetch_failed r"
  shows "cardDisplayArea (doc (fetchAndDisplayCards_finish e r st)) = []
       \<and> paginationControlsTop (doc (fetchAndDisplayCards_finish e r st)) = None
       \<and> paginationControlsBottom (doc (fetchAndDisplayCards_finish e r st)) = None
       \<and> errorMessage_shown (doc (fetchAndDisplayCards_finish e r st))
       \<and> \<not> loadingMessage_shown (doc (fetchAndDisplayCards_finish e r st))
       \<and> vars (fetchAndDisplayCards_finish e r st) = vars st"
  using assms
  by (auto simp add: fetch_failed_def fetchAndDisplayCards_finish_def displayError_fields
        split: fetch_result.splits body.splits if_splits)

theorem failed_fetch_clears_cards_witness:
  "fetch_failed (Rejected ''Failed to fetch'')
   \<and> cardDisplayArea (doc (page0\<lparr>doc := dom_two_cards\<rparr>)) \<noteq> []
   \<and> cardDisplayArea (doc (fetchAndDisplayCards_finish env0 (Rejected ''Failed to fetch'')
         (page0\<lparr>doc := dom_two_cards\<rparr>))) = []
   \<and> errorMessage_shown (doc (fetchAndDisplayCards_finish env0 (Rejected ''Failed to fetch'')
         (page0\<lparr>doc := dom_two_cards\<rparr>)))"
  using failed_fetch_clears_cards [of "Rejected ''Failed to fetch''" env0
          "page0\<lparr>doc := dom_two_cards\<rparr>"]
  by (simp add: fetch_failed_def dom_two_cards_def)

text \<open>
  Claim C6 as stated fails. The first page of two is displayed, Next is clicked, and the
  answer holds no cards and reports one page in all: the empty-state message is shown,
  and the pagination controls are rendered ("Page 2 of 1", both buttons enabled).
\<close>

theorem page_beyond_last_counterexample:
  "cardDisplayArea (doc (run env0 page_beyond_last (page_load env0 dom0)))
     = [Paragraph ''No cards found matching your criteria.'']
   \<and> paginationControlsTop (doc (run env0 page_beyond_last (page_load env0 dom0)))
     = Some \<lparr>prev_page = 1, prev_disabled = False, shown_current = 2, shown_total = 1,
              next_page = 3, next_disabled = False\<rparr>
   \<and> paginationControlsBottom (doc (run env0 page_beyond_last (page_load env0 dom0)))
     = Some \<lparr>prev_page = 1, prev_disabled = False, shown_current = 2, shown_total = 1,
              next_page = 3, next_disabled = False\<rparr>"
  by code_simp

text \<open>
  Claim C6 as amended. A 2xx answer whose \<open>cards\<close> array is empty makes the card area
  hold the empty-state paragraph and nothing else; the pagination controls are absent
  exactly when the answer has no pagination object or its \<open>total_pages\<close> is not
  positive, and are rendered from the answer's pagination data otherwise: Previous leads
  to \<open>current_page - 1\<close> and is disabled on page 1, the text shows \<open>current_page\<close> of
  \<open>total_pages\<close>, Next leads to \<open>current_page + 1\<close> and is disabled on the last page,
  top and bottom alike.
\<close>

theorem no_cards_view:
  assumes "response_ok resp" and "payload resp = Json d (ListObject (Some []) pg)"
  shows "cardDisplayArea (doc (fetchAndDisplayCards_finish e (Resolved resp) st))
           = [Paragraph ''No cards found matching your criteria.'']
       \<and> \<not> loadingMessage_shown (doc (fetchAndDisplayCards_finish e (Resolved resp) st))
       \<and> paginationControlsTop (doc (fetchAndDisplayCards_finish e (Resolved resp) st))
           = (case pg of
                None \<Rightarrow> None
              | Some p \<Rightarrow>
                  if total_pages p \<le> 0 then None
                  else Some \<lparr>prev_page = current_page p - 1, prev_disabled = (current_page p = 1),
                             shown_current = current_page p, shown_total = total_pages p,
                             next_page = current_page p + 1,
                             next_disabled = (current_page p = total_pages p)\<rparr>)
       \<and> paginationControlsBottom (doc (fetchAndDisplayCards_finish e (Resolved resp) st))
           = paginationControlsTop (doc (fetchAndDisplayCards_finish e (Resolved resp) st))"
  using assms
  by (auto simp add: fetchAndDisplayCards_finish_def show_result_def Let_def
        renderPaginationControls_def updateActiveControls_def split: option.splits)

theorem no_cards_view_witness:
  "response_ok \<lparr>status = 200, payload = Json None (ListObject (Some [])
       (Some \<lparr>total_pages = 0, current_page = 1, total_items = 0, per_page = Some 2\<rparr>))\<rparr>
   \<and> cardDisplayArea (doc (fetchAndDisplayCards_finish env0
         (Resolved \<lparr>status = 200, payload = Json None (ListObject (Some [])
            (Some \<lparr>total_pages = 0, current_page = 1, total_items = 0, per_page = Some 2\<rparr>))\<rparr>)
         (page0\<lparr>doc := dom_two_cards\<rparr>)))
       = [Paragraph ''No cards found matching your criteria.'']
   \<and> paginationControlsTop (doc (fetchAndDisplayCards_finish env0
         (Resolved \<lparr>status = 200, payload = Json None (ListObject (Some [])
            (Some \<lparr>total_pages = 0, current_page = 1, total_items = 0, per_page = Some 2\<rparr>))\<rparr>)
         (page0\<lparr>doc := dom_two_cards\<rparr>))) = None
   \<and> paginationControlsTop (doc (fetchAndDisplayCards_finish env0
         (Resolved \<lparr>status = 200, payload = Json None (ListObject (Some [])
            (Some \<lparr>total_pages = 1, current_page = 2, total_items = 2, per_page = Some 2\<rparr>))\<rparr>)
         (page0\<lparr>doc := dom_two_cards\<rparr>)))
       = Some \<lparr>prev_page = 1, prev_disabled = False, shown_current = 2, shown_total = 1,
                next_page = 3, next_disabled = False\<rparr>
   \<and> paginationControlsBottom (doc (fetchAndDisplayCards_finish env0
         (Resolved \<lparr>status = 200, payload = Json None (ListObject (Some [])
            (Some \<lparr>total_pages = 1, current_page = 2, total_items = 2, per_page = Some 2\<rparr>))\<rparr>)
         (page0\<lparr>doc := dom_two_cards\<rparr>)))
       = Some \<lparr>prev_page = 1, prev_disabled = False, shown_current = 2, shown_total = 1,
                next_page = 3, next_disabled = False\<rparr>
   \<and> paginationControlsTop (doc (fetchAndDisplayCards_finish env0
         (Resolved \<lparr>status = 200, payload = Json None (ListObject (Some []) None)\<rparr>)
         (page0\<lparr>doc := dom_two_cards\<rparr>))) = None"
  using no_cards_view [of
          "\<lparr>status = 200, payload = Json None (ListObject (Some [])
              (Some \<lparr>total_pages = 0, current_page = 1, total_items = 0, per_page = Some 2\<rparr>))\<rparr>"
          None "Some \<lparr>total_pages = 0, current_page = 1, total_items = 0, per_page = Some 2\<rparr>"
          env0 "page0\<lparr>doc := dom_two_cards\<rparr>"]
        no_cards_view [of
          "\<lparr>status = 200, payload = Json None (ListObject (Some [])
              (Some \<lparr>total_pages = 1, current_page = 2, total_items = 2, per_page = Some 2\<rparr>))\<rparr>"
          None "Some \<lparr>total_pages = 1, current_page = 2, total_items = 2, per_page = Some 2\<rparr>"
          env0 "page0\<lparr>doc := dom_two_cards\<rparr>"]
        no_cards_view [of
          "\<lparr>status = 200, payload = Json None (ListObject (Some []) None)\<rparr>"
          None None env0 "page0\<lparr>doc := dom_two_cards\<rparr>"]
  by (simp add: response_ok_def)

section \<open>Error messages\<close>

text \<open>
  Claim C7 as stated fails on a body whose \<open>detail\<close> is the empty string: the field is
  present, yet both paths show the generic message with the status (\<^verbatim>\<open>if (detail)\<close> and
  \<^verbatim>\<open>detail || ...\<close> test truthiness, not presence).
\<close>

theorem empty_detail_counterexample:
  "alerted (updateQuantity engine0 ''c1'' (- 1) None
      (Resolved \<lparr>status = 500, payload = Json (Some (DetailString '''')) card_c1\<rparr>) dom_two_cards)
     = [''Failed to update quantity: Error: 500'']
   \<and> errorMessage_text (doc (fetchAndDisplayCards_finish env0
         (Resolved \<lparr>status = 500, payload = Json (Some (DetailString '''')) NotAnObject\<rparr>) page0))
     = ''Failed to load cards. Error fetching cards. Status: 500''"
  by (simp add: updateQuantity_def settle_update_def response_ok_def detail_or_status_def
        fetchAndDisplayCards_finish_def displayError_fields server_says_def
        show_nat.simps digit_char_def)

text \<open>
  Claim C7 as amended. For a status outside 2xx and a JSON body: when \<open>detail\<close> is a
  non-empty string, the list page shows "Failed to load cards. Error fetching cards.
  Status: n, Server says: detail" and \<^verbatim>\<open>updateQuantity\<close> alerts "Failed to update
  quantity: detail"; when \<open>detail\<close> is missing, empty or otherwise falsy, the messages
  are the generic ones with the status.
\<close>

theorem error_detail_shown:
  assumes "\<not> (200 \<le> n \<and> n \<le> 299)"
  shows "(s \<noteq> [] \<longrightarrow>
            errorMessage_text (doc (fetchAndDisplayCards_finish e
              (Resolved \<lparr>status = n, payload = Json (Some (DetailString s)) res\<rparr>) st))
              = ''Failed to load cards. Error fetching cards. Status: '' @ show_nat n
                @ '', Server says: '' @ s
          \<and> alerted (updateQuantity g documentId change coll
              (Resolved \<lparr>status = n, payload = Json (Some (DetailString s)) c\<rparr>) d)
              = [''Failed to update quantity: '' @ s])
       \<and> (\<not> detail_truthy dt \<longrightarrow>
            errorMessage_text (doc (fetchAndDisplayCards_finish e
              (Resolved \<lparr>status = n, payload = Json dt res\<rparr>) st))
              = ''Failed to load cards. Error fetching cards. Status: '' @ show_nat n
          \<and> alerted (updateQuantity g documentId change coll
              (Resolved \<lparr>status = n, payload = Json dt c\<rparr>) d)
              = [''Failed to update quantity: Error: '' @ show_nat n])"
  using assms
  by (auto simp add: fetchAndDisplayCards_finish_def response_ok_def displayError_fields
        server_says_def updateQuantity_def settle_update_def detail_or_status_def
        detail_truthy_def split: option.splits detail.splits)

theorem error_detail_shown_witness:
  "\<not> (200 \<le> (500::nat) \<and> (500::nat) \<le> 299)
   \<and> errorMessage_text (doc (fetchAndDisplayCards_finish env0
         (Resolved \<lparr>status = 500, payload = Json (Some (DetailString ''db unavailable'')) NotAnObject\<rparr>)
         page0))
       = ''Failed to load cards. Error fetching cards. Status: 500, Server says: db unavailable''
   \<and> alerted (updateQuantity engine0 ''c1'' (- 1) None
         (Resolved \<lparr>status = 500, payload = Json (Some (DetailString ''db unavailable'')) card_c1\<rparr>)
         dom_two_cards)
       = [''Failed to update quantity: db unavailable'']
   \<and> \<not> detail_truthy None
   \<and> alerted (updateQuantity engine0 ''c1'' (- 1) None
         (Resolved \<lparr>status = 500, payload = Json None card_c1\<rparr>) dom_two_cards)
       = [''Failed to update quantity: Error: 500'']"
  using error_detail_shown [of 500 "''db unavailable''" env0 NotAnObject page0 engine0 "''c1''"
          "- 1" None card_c1 dom_two_cards None]
  by (simp add: detail_truthy_def show_nat.simps digit_char_def)

section \<open>Parameter changes and page navigation\<close>

lemma start_vars:
  "vars (fetchAndDisplayCards_start e st) =
     (if \<not> truthy (currentCollectionName (vars st)) \<and> truthy (url_collectionName e)
      then (vars st)\<lparr>currentCollectionName := url_collectionName e\<rparr> else vars st)"
  by (simp add: fetchAndDisplayCards_start_def Let_def)

lemma start_issued:
  "issued (fetchAndDisplayCards_start e st) = issued st
   \<or> issued (fetchAndDisplayCards_start e st)
       = issued st @ [list_url (vars (fetchAndDisplayCards_start e st))]"
  by (simp add: fetchAndDisplayCards_start_def Let_def)

lemma start_resolved: "collection_resolved e (vars (fetchAndDisplayCards_start e st))"
  by (simp add: start_vars collection_resolved_def)

lemma start_page: "currentPage (vars (fetchAndDisplayCards_start e st)) = currentPage (vars st)"
  by (simp add: start_vars)

lemma show_result_vars:
  "vars (show_result res st) = vars st
   \<or> (\<exists>n. vars (show_result res st) = (vars st)\<lparr>totalPages := n\<rparr>)"
  by (auto simp add: show_result_def Let_def split: list_result.splits option.splits)

lemma finish_collection:
  "currentCollectionName (vars (fetchAndDisplayCards_finish e r st)) = currentCollectionName (vars st)"
proof -
  have "currentCollectionName (vars (show_result res s)) = currentCollectionName (vars s)" for res s
    using show_result_vars [of res s] by auto
  then show ?thesis
    by (simp add: fetchAndDisplayCards_finish_def split: fetch_result.splits body.splits)
qed

lemma step_resolved:
  assumes "collection_resolved e (vars st)"
  shows "collection_resolved e (vars (step e ev st))"
proof (cases ev)
  case (Settle k r)
  then show ?thesis
    using assms by (simp add: step_def collection_resolved_def finish_collection)
qed (use assms in \<open>simp_all add: step_def searchButton_click_def page_button_click_def
      start_resolved split: option.splits\<close>)

lemma page_load_resolved: "collection_resolved e (vars (page_load e d))"
  by (simp add: page_load_def start_resolved)

lemma run_resolved:
  "collection_resolved e (vars st) \<Longrightarrow> collection_resolved e (vars (run e evs st))"
  by (induction evs arbitrary: st) (simp_all add: step_resolved)

lemma list_url_page_one:
  "currentPage v = 1 \<Longrightarrow> \<exists>rest. list_url v = baseUrl @ ''/cards?page=1&'' @ rest"
  by (simp add: list_url_def list_query_def show_int_def show_nat.simps digit_char_def
        form_encode_def is_alnum_def)

text \<open>
  Claim C5. In every state the page can reach from its load, the handler of an event
  that changes collection name, search query, sort field, sort order or page size leaves
  \<^verbatim>\<open>currentPage\<close> at 1, and if it gets as far as sending the list request, that request
  is the one for the new variables, with \<open>page=1\<close> as first parameter. A click on a
  pagination button changes no variable but \<^verbatim>\<open>currentPage\<close>.
\<close>

theorem parameter_change_resets_page:
  "(changes_parameter ev \<longrightarrow>
      currentPage (vars (step e ev (run e evs (page_load e d)))) = 1
      \<and> (issued (step e ev (run e evs (page_load e d))) = issued (run e evs (page_load e d))
         \<or> issued (step e ev (run e evs (page_load e d)))
             = issued (run e evs (page_load e d))
               @ [list_url (vars (step e ev (run e evs (page_load e d))))])
      \<and> (\<exists>rest. list_url (vars (step e ev (run e evs (page_load e d))))
                   = baseUrl @ ''/cards?page=1&'' @ rest))
   \<and> (page_navigation ev \<longrightarrow>
      vars (step e ev (run e evs (page_load e d)))
        = (vars (run e evs (page_load e d)))
            \<lparr>currentPage := currentPage (vars (step e ev (run e evs (page_load e d))))\<rparr>)"
proof -
  define st where "st = run e evs (page_load e d)"
  have inv: "collection_resolved e (vars st)"
    unfolding st_def by (rule run_resolved [OF page_load_resolved])
  have keep: "vars (fetchAndDisplayCards_start e (st\<lparr>vars := (vars st)\<lparr>currentPage := n\<rparr>\<rparr>))
                = (vars st)\<lparr>currentPage := n\<rparr>" for n
    using inv by (auto simp add: start_vars collection_resolved_def)
  have reset: "currentPage (vars (step e ev st)) = 1" if "changes_parameter ev"
    using that by (cases ev) (simp_all add: step_def searchButton_click_def start_page)
  have sent: "issued (step e ev st) = issued st
              \<or> issued (step e ev st) = issued st @ [list_url (vars (step e ev st))]"
    if "changes_parameter ev"
  proof (cases ev)
    case Click_fetchCollectionButton
    show ?thesis
      using start_issued [of e "st\<lparr>vars := (vars st)\<lparr>currentCollectionName :=
              or_null (trim (collectionNameInput_value (doc st))), currentPage := 1\<rparr>\<rparr>"]
      by (simp add: Click_fetchCollectionButton step_def)
  next
    case Click_searchButton
    show ?thesis
      using start_issued [of e "st\<lparr>vars := (vars st)\<lparr>currentSearchQuery :=
              or_null (trim (searchInput_value (doc st))), currentPage := 1\<rparr>\<rparr>"]
      by (simp add: Click_searchButton step_def searchButton_click_def)
  next
    case (Keypress_searchInput k)
    with that have "k = ''Enter''" by simp
    then show ?thesis
      using start_issued [of e "st\<lparr>vars := (vars st)\<lparr>currentSearchQuery :=
              or_null (trim (searchInput_value (doc st))), currentPage := 1\<rparr>\<rparr>"]
      by (simp add: Keypress_searchInput step_def searchButton_click_def)
  next
    case Click_clearSearchButton
    show ?thesis
      using start_issued [of e "st\<lparr>vars := (vars st)\<lparr>currentSearchQuery := None, currentPage := 1\<rparr>,
              doc := (doc st)\<lparr>searchInput_value := [], clearSearchButton_shown := False\<rparr>\<rparr>"]
      by (simp add: Click_clearSearchButton step_def)
  next
    case (Change_sortBySelect s)
    show ?thesis
      using start_issued [of e "st\<lparr>vars := (vars st)\<lparr>currentSortBy := s, currentPage := 1\<rparr>,
              doc := (doc st)\<lparr>sortBySelect_value := s\<rparr>\<rparr>"]
      by (simp add: Change_sortBySelect step_def)
  next
    case (Change_sortOrderSelect s)
    show ?thesis
      using start_issued [of e "st\<lparr>vars := (vars st)\<lparr>currentSortOrder := s, currentPage := 1\<rparr>,
              doc := (doc st)\<lparr>sortOrderSelect_value := s\<rparr>\<rparr>"]
      by (simp add: Change_sortOrderSelect step_def)
  next
    case (Change_perPageSelect s)
    show ?thesis
      using start_issued [of e "st\<lparr>vars := (vars st)\<lparr>itemsPerPage := parseInt s 10, currentPage := 1\<rparr>,
              doc := (doc st)\<lparr>perPageSelect_value := s\<rparr>\<rparr>"]
      by (simp add: Change_perPageSelect step_def)
  qed (use that in simp_all)
  have nav: "vars (step e ev st) = (vars st)\<lparr>currentPage := currentPage (vars (step e ev st))\<rparr>"
    if "page_navigation ev"
    using that
    by (cases ev) (simp_all add: step_def page_button_click_def keep split: option.splits)
  show ?thesis
    using reset sent nav list_url_page_one [of "vars (step e ev st)"]
    unfolding st_def by blast
qed

theorem parameter_change_resets_page_witness:
  "changes_parameter (Change_sortOrderSelect ''desc'')
   \<and> currentPage (vars (run env0 (first_load @ [Click_next_top]) (page_load env0 dom0))) = 2
   \<and> currentPage (vars (step env0 (Change_sortOrderSelect ''desc'')
         (run env0 (first_load @ [Click_next_top]) (page_load env0 dom0)))) = 1
   \<and> page_navigation Click_next_top
   \<and> vars (step env0 Click_next_top (run env0 first_load (page_load env0 dom0)))
       = (vars (run env0 first_load (page_load env0 dom0)))\<lparr>currentPage := 2\<rparr>"
proof -
  have before: "currentPage (vars (run env0 (first_load @ [Click_next_top]) (page_load env0 dom0))) = 2"
    by code_simp
  have target: "currentPage (vars (step env0 Click_next_top (run env0 first_load (page_load env0 dom0)))) = 2"
    by code_simp
  have reset: "currentPage (vars (step env0 (Change_sortOrderSelect ''desc'')
         (run env0 (first_load @ [Click_next_top]) (page_load env0 dom0)))) = 1"
    using parameter_change_resets_page [of "Change_sortOrderSelect ''desc''" env0
            "first_load @ [Click_next_top]" dom0]
    by simp
  have nav: "vars (step env0 Click_next_top (run env0 first_load (page_load env0 dom0)))
       = (vars (run env0 first_load (page_load env0 dom0)))\<lparr>currentPage := 2\<rparr>"
    using parameter_change_resets_page [of Click_next_top env0 first_load dom0] target
    by simp
  show ?thesis
    using before reset nav by simp
qed

end
